theory Spec2Isabelle
  imports Main "HOL-Library.Sublist"
begin

section \<open>Python values used by the forwarder\<close>

text \<open>
  A chat identifier is \<^verbatim>\<open>Union[int, str]\<close>. Dictionary and set membership compare
  an int and a str as different keys, as the constructors below do.
\<close>

datatype chat_ref = IntId int | StrId string

text \<open>\<^verbatim>\<open>str(n)\<close> for a Python int: decimal digits, a leading minus sign for negatives.\<close>

definition digit_char :: "nat \<Rightarrow> char" where
  "digit_char d = ''0123456789'' ! d"

fun str_nat :: "nat \<Rightarrow> string" where
  "str_nat n = (if n < 10 then [digit_char n] else str_nat (n div 10) @ [digit_char (n mod 10)])"

declare str_nat.simps [simp del]

definition str_int :: "int \<Rightarrow> string" where
  "str_int i = (if i < 0 then CHR ''-'' # str_nat (nat (- i)) else str_nat (nat i))"

definition py_str :: "chat_ref \<Rightarrow> string" where
  "py_str c = (case c of IntId i \<Rightarrow> str_int i | StrId s \<Rightarrow> s)"

text \<open>\<^verbatim>\<open>s.startswith(p)\<close>, \<^verbatim>\<open>s[n:]\<close> and \<^verbatim>\<open>s.lstrip(c)\<close> for a single character.\<close>

definition startswith :: "string \<Rightarrow> string \<Rightarrow> bool" where
  "startswith s p = (take (length p) s = p)"

definition slice_from :: "nat \<Rightarrow> string \<Rightarrow> string" where
  "slice_from n s = drop n s"

fun lstrip :: "char \<Rightarrow> string \<Rightarrow> string" where
  "lstrip c [] = []"
| "lstrip c (x # xs) = (if x = c then lstrip c xs else x # xs)"

section \<open>utils.py: normalize_chat_id\<close>

definition normalize_chat_id :: "chat_ref \<Rightarrow> string list" where
  "normalize_chat_id chat_id =
     (let str_chat_id = py_str chat_id in
      if startswith str_chat_id ''-100'' then
        [str_chat_id, slice_from 4 str_chat_id, ''-'' @ slice_from 4 str_chat_id]
      else
        [str_chat_id, ''-100'' @ lstrip CHR ''-'' str_chat_id])"

section \<open>rules.py: RuleManager.should_forward\<close>

text \<open>
  A target of the rule file: \<^verbatim>\<open>{"chat_id": str, "topic_id": int|null, "user_ids": [int]?}\<close>.
  \<open>t_topic_id\<close> is \<^verbatim>\<open>target.get("topic_id")\<close>; \<open>t_user_ids\<close> is \<open>None\<close> when the key
  is absent or null, where \<^verbatim>\<open>target.get("user_ids", [])\<close> is falsy.
\<close>

record target =
  t_chat_id :: string
  t_topic_id :: "int option"
  t_user_ids :: "int list option"

text \<open>One entry of the decision list built by \<^verbatim>\<open>result.append({...})\<close>.\<close>

record fwd_target =
  to_chat :: string
  to_topic :: "int option"
  include_source :: bool

type_synonym rule_entry = "string \<rightharpoonup> target list"
type_synonym rule_table = "string \<rightharpoonup> rule_entry"

text \<open>The \<^verbatim>\<open>for potential_id in potential_ids: ... break\<close> loop.\<close>

fun find_matching_rules :: "rule_table \<Rightarrow> string list \<Rightarrow> rule_entry option" where
  "find_matching_rules rules [] = None"
| "find_matching_rules rules (potential_id # rest) =
     (case rules potential_id of
        Some matching_rules \<Rightarrow> Some matching_rules
      | None \<Rightarrow> find_matching_rules rules rest)"

definition get_user_ids :: "target \<Rightarrow> int list" where
  "get_user_ids tg = (case t_user_ids tg of None \<Rightarrow> [] | Some us \<Rightarrow> us)"

definition make_fwd_target :: "target \<Rightarrow> fwd_target" where
  "make_fwd_target tg = \<lparr>to_chat = t_chat_id tg, to_topic = t_topic_id tg, include_source = True\<rparr>"

text \<open>
  The \<^verbatim>\<open>for target in ...\<close> loop, run once for the \<^verbatim>\<open>"*"\<close> list and once for the topic
  list, appending to the shared \<^verbatim>\<open>result\<close>; \<^verbatim>\<open>continue\<close> skips the append.
\<close>

fun collect_targets :: "int option \<Rightarrow> target list \<Rightarrow> fwd_target list \<Rightarrow> fwd_target list" where
  "collect_targets user_id [] result = result"
| "collect_targets user_id (tg # rest) result =
     (let user_ids = get_user_ids tg in
      if user_ids \<noteq> [] \<and> user_id \<noteq> None \<and> the user_id \<notin> set user_ids
      then collect_targets user_id rest result
      else collect_targets user_id rest (result @ [make_fwd_target tg]))"

definition should_forward ::
  "rule_table \<Rightarrow> chat_ref \<Rightarrow> int option \<Rightarrow> int option \<Rightarrow> fwd_target list" where
  "should_forward rules chat_id topic_id user_id =
     (case find_matching_rules rules (normalize_chat_id chat_id) of
        None \<Rightarrow> []
      | Some matching_rules \<Rightarrow>
          (let result = [];
               result = (case matching_rules ''*'' of
                           None \<Rightarrow> result
                         | Some tgs \<Rightarrow> collect_targets user_id tgs result);
               result = (case topic_id of
                           None \<Rightarrow> result
                         | Some t \<Rightarrow>
                             (case matching_rules (str_int t) of
                                None \<Rightarrow> result
                              | Some tgs \<Rightarrow> collect_targets user_id tgs result))
           in result))"

text \<open>
  The user filter in the words of the specification: a target is excluded iff its filter
  list is non-empty and the sender id is known and absent from the list.
\<close>

definition spec_filter_excludes :: "int option \<Rightarrow> target \<Rightarrow> bool" where
  "spec_filter_excludes user_id tg =
     (get_user_ids tg \<noteq> [] \<and> (case user_id of None \<Rightarrow> False | Some u \<Rightarrow> u \<notin> set (get_user_ids tg)))"

definition entry_targets :: "rule_entry \<Rightarrow> string \<Rightarrow> target list" where
  "entry_targets entry k = (case entry k of None \<Rightarrow> [] | Some tgs \<Rightarrow> tgs)"

section \<open>Messages, senders and media\<close>

text \<open>
  The exception classes the code tells apart: the three forwarding-restriction errors named
  in \<^verbatim>\<open>forwarding.py\<close>, and any other \<^verbatim>\<open>Exception\<close>.
\<close>

datatype exn = ForbiddenError | ChatAdminRequiredError | ChannelPrivateError | OtherError

text \<open>
  A sender as \<^verbatim>\<open>format_message_for_forwarding\<close> reads it. A name field is \<open>None\<close> when
  the attribute is missing or holds \<^verbatim>\<open>None\<close> (\<^verbatim>\<open>getattr(sender, 'first_name', '')\<close> is
  then falsy); \<open>s_id\<close> is \<open>None\<close> when \<^verbatim>\<open>hasattr(sender, 'id')\<close> is false.
\<close>

record sender =
  s_first_name :: "string option"
  s_last_name :: "string option"
  s_username :: "string option"
  s_id :: "int option"

text \<open>A media object, known by its class name \<^verbatim>\<open>type(media).__name__\<close>.\<close>

record media =
  media_class :: string

text \<open>
  The reply header \<^verbatim>\<open>message.reply_to\<close>. Each field is \<open>None\<close> when \<^verbatim>\<open>hasattr\<close> is false
  and \<open>Some v\<close> with the attribute's value otherwise (\<open>Some None\<close> for the value \<^verbatim>\<open>None\<close>).
\<close>

record reply_to =
  r_forum_topic :: "bool option"
  r_top_msg_id :: "int option option"
  r_reply_to_top_id :: "int option option"
  r_reply_to_msg_id :: "int option option"

text \<open>
  A message object. \<open>m_topic_id\<close> and \<open>m_topic\<close> are \<open>None\<close> when the attribute does not
  exist. The text attributes are \<open>None\<close> when they hold \<^verbatim>\<open>None\<close>; \<open>m_extracted_text\<close> is
  the custom attribute \<^verbatim>\<open>_extracted_text\<close>, \<open>None\<close> until it is set. \<open>m_to_dict\<close> is
  \<open>None\<close> without a \<^verbatim>\<open>to_dict\<close> method, otherwise the outcome of calling it: an exception,
  or what the dictionary holds under \<^verbatim>\<open>'message'\<close> (\<open>None\<close>: no such key; \<open>Some None\<close>: the
  value \<^verbatim>\<open>None\<close>). \<open>m_sender\<close> is the outcome of \<^verbatim>\<open>await message.get_sender()\<close>.
\<close>

record message =
  m_id :: int
  m_topic_id :: "int option option"
  m_topic :: "int option option"
  m_reply_to :: "reply_to option"
  m_post :: bool
  m_message :: "string option"
  m_text :: "string option"
  m_raw_text :: "string option"
  m_extracted_text :: "string option"
  m_to_dict :: "(exn + string option option) option"
  m_media :: "media option"
  m_sender :: "exn + sender option"

text \<open>Truthiness of an optional string: \<^verbatim>\<open>None\<close> and \<^verbatim>\<open>''\<close> are falsy.\<close>

definition truthy :: "string option \<Rightarrow> bool" where
  "truthy v = (case v of None \<Rightarrow> False | Some x \<Rightarrow> x \<noteq> [])"

definition str_of :: "string option \<Rightarrow> string" where
  "str_of v = (case v of None \<Rightarrow> [] | Some x \<Rightarrow> x)"

subsection \<open>utils.py: extract_message_text, get_media_type_name\<close>

definition extract_message_text :: "message \<Rightarrow> string" where
  "extract_message_text msg =
     (if truthy (m_message msg) then str_of (m_message msg)
      else if truthy (m_text msg) then str_of (m_text msg)
      else if truthy (m_raw_text msg) then str_of (m_raw_text msg)
      else [])"

text \<open>\<^verbatim>\<open>s.replace(old, '')\<close> for a non-empty \<open>old\<close>: occurrences are removed left to right.\<close>

function py_remove :: "string \<Rightarrow> string \<Rightarrow> string" where
  "py_remove old [] = []"
| "py_remove old (c # cs) =
     (if old \<noteq> [] \<and> take (length old) (c # cs) = old
      then py_remove old (drop (length old) (c # cs))
      else c # py_remove old cs)"
  by pat_completeness auto
termination
  by (relation "measure (\<lambda>(old, s). length s)") auto

definition get_media_type_name :: "media \<Rightarrow> string" where
  "get_media_type_name md = py_remove ''MessageMedia'' (media_class md)"

definition is_webpage :: "media \<Rightarrow> bool" where
  "is_webpage md = (media_class md = ''MessageMediaWebPage'')"

subsection \<open>processors.py: format_message_for_forwarding\<close>

text \<open>The two pictographs of the prefixes, as their UTF-8 bytes (U+2934 U+FE0F and U+1F517).\<close>

definition reply_mark :: string where
  "reply_mark = [CHR 0xE2, CHR 0xA4, CHR 0xB4, CHR 0xEF, CHR 0xB8, CHR 0x8F]"

definition link_mark :: string where
  "link_mark = [CHR 0xF0, CHR 0x9F, CHR 0x94, CHR 0x97]"

text \<open>The formatted block: \<^verbatim>\<open>{"text": ..., "media": message.media, ...}\<close>.\<close>

record content =
  c_text :: string
  c_media :: "media option"

text \<open>The \<^verbatim>\<open>try: sender = await message.get_sender() ... except\<close> block.\<close>

definition sender_name_of :: "exn + sender option \<Rightarrow> string" where
  "sender_name_of got =
     (case got of
        Inl e \<Rightarrow> ''Unknown User''
      | Inr sd \<Rightarrow>
          (let sender_name = (case sd of None \<Rightarrow> [] | Some x \<Rightarrow> str_of (s_first_name x));
               sender_name = (case sd of
                                None \<Rightarrow> sender_name
                              | Some x \<Rightarrow> if truthy (s_last_name x)
                                          then sender_name @ '' '' @ str_of (s_last_name x)
                                          else sender_name);
               sender_name = (case sd of
                                None \<Rightarrow> sender_name
                              | Some x \<Rightarrow> if truthy (s_username x)
                                          then sender_name @ '' (@'' @ str_of (s_username x) @ '')''
                                          else sender_name)
           in if sender_name = [] then
                (case sd of
                   None \<Rightarrow> ''Unknown User''
                 | Some x \<Rightarrow> (case s_id x of
                                Some i \<Rightarrow> ''User '' @ str_int i
                              | None \<Rightarrow> ''Unknown User''))
              else sender_name))"

definition prefix_of :: "bool \<Rightarrow> string option \<Rightarrow> string" where
  "prefix_of is_reply linked_from =
     (if is_reply then reply_mark @ '' **In reply to:**\<newline>''
      else if truthy linked_from then
        link_mark @ '' **Linked message:** '' @ str_of linked_from @ ''\<newline>''
      else [])"

text \<open>The text of the message: the attribute chain, then \<^verbatim>\<open>to_dict()\<close>, then the placeholders.\<close>

definition message_text_of :: "message \<Rightarrow> string" where
  "message_text_of msg =
     (let message_text =
            (if truthy (m_extracted_text msg) then str_of (m_extracted_text msg)
             else if truthy (m_message msg) then str_of (m_message msg)
             else if truthy (m_text msg) then str_of (m_text msg)
             else if truthy (m_raw_text msg) then str_of (m_raw_text msg)
             else []);
          message_text =
            (if message_text = [] then
               (case m_to_dict msg of
                  Some (Inr (Some v)) \<Rightarrow> str_of v
                | _ \<Rightarrow> message_text)
             else message_text)
      in if message_text = [] then
           (case m_media msg of
              Some md \<Rightarrow> ''[Message with '' @ get_media_type_name md @ '']''
            | None \<Rightarrow> ''[Empty message]'')
         else message_text)"

definition format_message_for_forwarding :: "message \<Rightarrow> bool \<Rightarrow> string option \<Rightarrow> content" where
  "format_message_for_forwarding msg is_reply linked_from =
     (let sender_name = sender_name_of (m_sender msg);
          prefix = prefix_of is_reply linked_from;
          message_text = message_text_of msg;
          formatted_text = prefix @ ''**'' @ sender_name @ '':** '' @ message_text
      in \<lparr>c_text = formatted_text, c_media = m_media msg\<rparr>)"

text \<open>
  The formatter in the words of the specification: the prefix by kind and the sender
  display, without the markup the code adds.
\<close>

definition spec_prefix :: "bool \<Rightarrow> string option \<Rightarrow> string" where
  "spec_prefix is_reply linked_from =
     (if is_reply then ''In reply to:''
      else if truthy linked_from then ''Linked message: '' @ str_of linked_from
      else [])"

definition spec_sender_display :: "sender \<Rightarrow> string" where
  "spec_sender_display x =
     (if truthy (s_first_name x) \<or> truthy (s_last_name x) \<or> truthy (s_username x) then
        str_of (s_first_name x)
        @ (if truthy (s_last_name x) then '' '' @ str_of (s_last_name x) else [])
        @ (if truthy (s_username x) then '' (@'' @ str_of (s_username x) @ '')'' else [])
      else (case s_id x of Some i \<Rightarrow> ''User '' @ str_int i | None \<Rightarrow> ''Unknown User''))"

definition spec_format :: "message \<Rightarrow> sender \<Rightarrow> bool \<Rightarrow> string option \<Rightarrow> string" where
  "spec_format msg x is_reply linked_from =
     spec_prefix is_reply linked_from @ spec_sender_display x @ '': '' @ message_text_of msg"

text \<open>A plain text message whose sender has the first name Amy and no other name field.\<close>

definition amy_msg :: message where
  "amy_msg = \<lparr>m_id = 1, m_topic_id = None, m_topic = None, m_reply_to = None, m_post = False,
     m_message = Some ''hi'', m_text = Some ''hi'', m_raw_text = Some ''hi'',
     m_extracted_text = None, m_to_dict = None, m_media = None,
     m_sender = Inr (Some \<lparr>s_first_name = Some ''Amy'', s_last_name = None,
                             s_username = None, s_id = Some 5\<rparr>)\<rparr>"

section \<open>The transport client and the shared state\<close>

text \<open>
  A chat entity as the code reads it: \<open>e_title\<close> is \<open>None\<close> when the entity has no
  \<^verbatim>\<open>title\<close> attribute; \<open>e_is_channel\<close> is \<^verbatim>\<open>isinstance(entity, Channel)\<close>; the flags are the
  truth values of \<^verbatim>\<open>getattr(entity, flag, False)\<close>.
\<close>

record entity =
  e_title :: "string option"
  e_forum :: bool
  e_is_channel :: bool
  e_megagroup :: bool
  e_noforwards :: bool

text \<open>
  An element of \<^verbatim>\<open>forum_topics.topics\<close>: one with an id and a title, or one on which reading
  \<^verbatim>\<open>topic.id\<close> or \<^verbatim>\<open>topic.title\<close> raises.
\<close>

datatype topic_item = Topic int string | BrokenTopic

record event =
  ev_chat_id :: chat_ref
  ev_message :: message

text \<open>
  The requests the code sends to the transport client. A request stands for the evaluation
  of the whole call expression: \<open>CallGetEntityInt c\<close> is
  \<^verbatim>\<open>await self.client.get_entity(int(chat_id))\<close> and \<open>CallForward c\<close> is
  \<^verbatim>\<open>await self.client.forward_messages(int(to_chat), message)\<close>, whose failure may be the
  failure of the conversion.
\<close>

datatype call =
    CallGetEntityInt chat_ref
  | CallGetEntity chat_ref
  | CallGetFullChannel entity
  | CallGetTopicMessage "entity option" int
  | CallGetDiscussion "entity option" int
  | CallGetMessagesOfChat chat_ref "int option"
  | CallGetMessages entity int
  | CallGetMessagesInTopic entity int int
  | CallGetRawMessages entity int
  | CallForward string
  | CallEdit string int
  | CallSend string string "int option" "media option"
  | CallSendMedia string "int option" media

text \<open>
  The transport client is outside the repository: its answers are parameters. Every answer
  may depend on the number of requests made so far, so that the same request can be
  answered differently later. An answer is an exception (\<open>Inl\<close>) or a value.
  \<open>cl_full_channel\<close> gives \<^verbatim>\<open>forum_topics.topics\<close>, \<open>None\<close> when \<^verbatim>\<open>forum_topics\<close> is falsy;
  \<open>cl_topic_message\<close> and \<open>cl_discussion\<close> give the \<^verbatim>\<open>title\<close> of each returned message
  (\<open>None\<close> without one); \<open>cl_forward\<close> gives the truth value of the forwarded message.
\<close>

record client =
  cl_get_entity_int :: "nat \<Rightarrow> chat_ref \<Rightarrow> exn + entity"
  cl_get_entity :: "nat \<Rightarrow> chat_ref \<Rightarrow> exn + entity"
  cl_full_channel :: "nat \<Rightarrow> entity \<Rightarrow> exn + topic_item list option"
  cl_topic_message :: "nat \<Rightarrow> entity option \<Rightarrow> int \<Rightarrow> exn + string option list"
  cl_discussion :: "nat \<Rightarrow> entity option \<Rightarrow> int \<Rightarrow> exn + string option list"
  cl_messages_of_chat :: "nat \<Rightarrow> chat_ref \<Rightarrow> int option \<Rightarrow> exn + message option"
  cl_messages :: "nat \<Rightarrow> entity \<Rightarrow> int \<Rightarrow> exn + message option"
  cl_messages_in_topic :: "nat \<Rightarrow> entity \<Rightarrow> int \<Rightarrow> int \<Rightarrow> exn + message option"
  cl_raw_messages :: "nat \<Rightarrow> entity \<Rightarrow> int \<Rightarrow> exn + message list"
  cl_forward :: "nat \<Rightarrow> string \<Rightarrow> message \<Rightarrow> exn + bool"
  cl_edit :: "nat \<Rightarrow> string \<Rightarrow> int \<Rightarrow> exn + unit"
  cl_send :: "nat \<Rightarrow> string \<Rightarrow> string \<Rightarrow> int option \<Rightarrow> media option \<Rightarrow> exn + unit"
  cl_send_media :: "nat \<Rightarrow> string \<Rightarrow> int option \<Rightarrow> media \<Rightarrow> exn + unit"

text \<open>
  The mutable state shared by the components: the three caches of \<^verbatim>\<open>EntityManager\<close>, the
  link cache of \<^verbatim>\<open>LinkManager\<close>, and the requests sent to the transport so far.
\<close>

record state =
  chat_entities :: "chat_ref \<rightharpoonup> entity"
  chat_topics :: "chat_ref \<rightharpoonup> (int \<rightharpoonup> string)"
  no_forward_chats :: "chat_ref set"
  resolved_message_links :: "string \<rightharpoonup> message"
  calls :: "call list"

definition initial_state :: state where
  "initial_state = \<lparr>chat_entities = Map.empty, chat_topics = Map.empty, no_forward_chats = {},
     resolved_message_links = Map.empty, calls = []\<rparr>"

definition request :: "call \<Rightarrow> state \<Rightarrow> state" where
  "request c s = s\<lparr>calls := calls s @ [c]\<rparr>"

definition now :: "state \<Rightarrow> nat" where
  "now s = length (calls s)"

section \<open>entities.py: EntityManager\<close>

text \<open>
  The lookup inside the \<^verbatim>\<open>try\<close> block of \<open>get_entity\<close>, by the form of the id. Its result is
  the outcome of the call expression: where \<^verbatim>\<open>int(chat_id)\<close> raises, as it does for an id that
  is not numeric, the outcome is that exception and the logged request never reached the
  transport.
\<close>

definition lookup_entity :: "client \<Rightarrow> chat_ref \<Rightarrow> state \<Rightarrow> (exn + entity) \<times> state" where
  "lookup_entity cl chat_id s =
     (if startswith (py_str chat_id) ''-100'' then
        (cl_get_entity_int cl (now s) chat_id, request (CallGetEntityInt chat_id) s)
      else if startswith (py_str chat_id) ''@'' then
        (cl_get_entity cl (now s) chat_id, request (CallGetEntity chat_id) s)
      else
        (cl_get_entity_int cl (now s) chat_id, request (CallGetEntityInt chat_id) s))"

definition get_entity :: "client \<Rightarrow> chat_ref \<Rightarrow> state \<Rightarrow> entity option \<times> state" where
  "get_entity cl chat_id s =
     (case chat_entities s chat_id of
        Some entity \<Rightarrow> (Some entity, s)
      | None \<Rightarrow>
          (let (answer, s1) = lookup_entity cl chat_id s
           in case answer of
                Inr entity \<Rightarrow>
                  (Some entity, s1\<lparr>chat_entities := (chat_entities s1)(chat_id \<mapsto> entity)\<rparr>)
              | Inl e \<Rightarrow> (None, s1)))"

definition chat_fallback_title :: "chat_ref \<Rightarrow> string" where
  "chat_fallback_title chat_id = ''Chat '' @ py_str chat_id"

definition get_chat_title :: "client \<Rightarrow> chat_ref \<Rightarrow> state \<Rightarrow> string \<times> state" where
  "get_chat_title cl chat_id s =
     (let (entity, s1) = get_entity cl chat_id s
      in case entity of
           Some e \<Rightarrow> ((case e_title e of Some t \<Rightarrow> t | None \<Rightarrow> chat_fallback_title chat_id), s1)
         | None \<Rightarrow> (chat_fallback_title chat_id, s1))"

definition cached_topic :: "state \<Rightarrow> chat_ref \<Rightarrow> int \<Rightarrow> string option" where
  "cached_topic s chat_id topic_id =
     (case chat_topics s chat_id of None \<Rightarrow> None | Some m \<Rightarrow> m topic_id)"

text \<open>
  \<^verbatim>\<open>self.chat_topics[chat_id][topic_id] = name\<close>. The inner dictionary exists whenever the
  code runs this assignment, since \<open>get_topic_name\<close> creates it first.
\<close>

definition set_topic :: "chat_ref \<Rightarrow> int \<Rightarrow> string \<Rightarrow> state \<Rightarrow> state" where
  "set_topic chat_id topic_id name s =
     s\<lparr>chat_topics := (chat_topics s)(chat_id \<mapsto>
          (case chat_topics s chat_id of
             None \<Rightarrow> Map.empty(topic_id \<mapsto> name)
           | Some m \<Rightarrow> m(topic_id \<mapsto> name)))\<rparr>"

text \<open>
  The loop \<^verbatim>\<open>for topic in forum_topics.topics\<close>: \<open>False\<close> when reading an element raised, with
  the entries stored before it kept.
\<close>

fun store_topics :: "chat_ref \<Rightarrow> topic_item list \<Rightarrow> state \<Rightarrow> bool \<times> state" where
  "store_topics chat_id [] s = (True, s)"
| "store_topics chat_id (Topic i title # rest) s = store_topics chat_id rest (set_topic chat_id i title s)"
| "store_topics chat_id (BrokenTopic # rest) s = (False, s)"

text \<open>First method: the forum topics of \<^verbatim>\<open>GetFullChannelRequest\<close>.\<close>

definition topic_from_full_channel ::
  "client \<Rightarrow> chat_ref \<Rightarrow> int \<Rightarrow> entity option \<Rightarrow> state \<Rightarrow> string option \<times> state" where
  "topic_from_full_channel cl chat_id topic_id entity s =
     (case entity of
        None \<Rightarrow> (None, s)
      | Some e \<Rightarrow>
          if e_is_channel e \<and> e_megagroup e then
            (let answer = cl_full_channel cl (now s) e;
                 s1 = request (CallGetFullChannel e) s
             in case answer of
                  Inl x \<Rightarrow> (None, s1)
                | Inr None \<Rightarrow> (None, s1)
                | Inr (Some topics) \<Rightarrow>
                    (let (completed, s2) = store_topics chat_id topics s1
                     in if completed then (cached_topic s2 chat_id topic_id, s2) else (None, s2)))
          else (None, s))"

text \<open>Second method: the title of the message that created the topic.\<close>

definition topic_from_message ::
  "client \<Rightarrow> chat_ref \<Rightarrow> int \<Rightarrow> entity option \<Rightarrow> state \<Rightarrow> string option \<times> state" where
  "topic_from_message cl chat_id topic_id entity s =
     (let answer = cl_topic_message cl (now s) entity topic_id;
          s1 = request (CallGetTopicMessage entity topic_id) s
      in case answer of
           Inl x \<Rightarrow> (None, s1)
         | Inr [] \<Rightarrow> (None, s1)
         | Inr (title # rest) \<Rightarrow>
             if truthy title then (Some (str_of title), set_topic chat_id topic_id (str_of title) s1)
             else (None, s1))"

text \<open>Third method: the first titled message of \<^verbatim>\<open>GetDiscussionMessageRequest\<close>.\<close>

fun first_title :: "string option list \<Rightarrow> string option" where
  "first_title [] = None"
| "first_title (title # rest) = (if truthy title then Some (str_of title) else first_title rest)"

definition topic_from_discussion ::
  "client \<Rightarrow> chat_ref \<Rightarrow> int \<Rightarrow> entity option \<Rightarrow> state \<Rightarrow> string option \<times> state" where
  "topic_from_discussion cl chat_id topic_id entity s =
     (let answer = cl_discussion cl (now s) entity topic_id;
          s1 = request (CallGetDiscussion entity topic_id) s
      in case answer of
           Inl x \<Rightarrow> (None, s1)
         | Inr titles \<Rightarrow>
             (case first_title titles of
                Some name \<Rightarrow> (Some name, set_topic chat_id topic_id name s1)
              | None \<Rightarrow> (None, s1)))"

definition get_topic_name ::
  "client \<Rightarrow> chat_ref \<Rightarrow> int option \<Rightarrow> state \<Rightarrow> string option \<times> state" where
  "get_topic_name cl chat_id topic_id s =
     (case topic_id of
        None \<Rightarrow> (None, s)
      | Some t \<Rightarrow>
          if t = 0 then (None, s)
          else
            (case cached_topic s chat_id t of
               Some name \<Rightarrow> (Some name, s)
             | None \<Rightarrow>
                 (let s0 = (if chat_topics s chat_id = None
                            then s\<lparr>chat_topics := (chat_topics s)(chat_id \<mapsto> Map.empty)\<rparr>
                            else s);
                      (entity, s1) = get_entity cl chat_id s0;
                      (found1, s2) = topic_from_full_channel cl chat_id t entity s1
                  in case found1 of
                       Some name \<Rightarrow> (Some name, s2)
                     | None \<Rightarrow>
                         (let (found2, s3) = topic_from_message cl chat_id t entity s2
                          in case found2 of
                               Some name \<Rightarrow> (Some name, s3)
                             | None \<Rightarrow>
                                 (let (found3, s4) = topic_from_discussion cl chat_id t entity s3
                                  in case found3 of
                                       Some name \<Rightarrow> (Some name, s4)
                                     | None \<Rightarrow>
                                         (let fallback_name = ''Topic '' @ str_int t
                                          in (Some fallback_name,
                                              set_topic chat_id t fallback_name s4)))))))"

definition can_forward_from_chat :: "client \<Rightarrow> chat_ref \<Rightarrow> state \<Rightarrow> bool \<times> state" where
  "can_forward_from_chat cl chat_id s =
     (if chat_id \<in> no_forward_chats s then (False, s)
      else
        (let (entity, s1) = get_entity cl chat_id s
         in case entity of
              None \<Rightarrow> (False, s1\<lparr>no_forward_chats := insert chat_id (no_forward_chats s1)\<rparr>)
            | Some e \<Rightarrow>
                if e_is_channel e \<and> e_noforwards e
                then (False, s1\<lparr>no_forward_chats := insert chat_id (no_forward_chats s1)\<rparr>)
                else (True, s1)))"

section \<open>processors.py: extract_topic_id\<close>

text \<open>The branch \<^verbatim>\<open>elif message.reply_to:\<close>, starting from \<^verbatim>\<open>topic_id = None\<close>.\<close>

definition topic_from_reply :: "reply_to \<Rightarrow> bool \<Rightarrow> int option" where
  "topic_from_reply reply_to is_forum =
     (let topic_id = None;
          topic_id =
            (if r_forum_topic reply_to = Some True then
               (case r_top_msg_id reply_to of
                  Some v \<Rightarrow> v
                | None \<Rightarrow> (case r_reply_to_top_id reply_to of Some v \<Rightarrow> v | None \<Rightarrow> topic_id))
             else
               (case r_reply_to_top_id reply_to of
                  Some v \<Rightarrow> v
                | None \<Rightarrow> (case r_top_msg_id reply_to of Some v \<Rightarrow> v | None \<Rightarrow> topic_id)))
      in if topic_id = None then
           (case r_reply_to_msg_id reply_to of
              Some reply_msg_id \<Rightarrow> if is_forum then reply_msg_id else topic_id
            | None \<Rightarrow> topic_id)
         else topic_id)"

text \<open>
  The body of the \<^verbatim>\<open>try\<close> block: \<open>Inl\<close> when it raises, which only the entity lookup can do,
  before \<^verbatim>\<open>topic_id\<close> is assigned.
\<close>

definition extract_topic_id_try :: "client \<Rightarrow> event \<Rightarrow> state \<Rightarrow> (exn + int option) \<times> state" where
  "extract_topic_id_try cl ev s =
     (let msg = ev_message ev;
          chat_id = ev_chat_id ev;
          answer = cl_get_entity cl (now s) chat_id;
          s1 = request (CallGetEntity chat_id) s
      in case answer of
           Inl x \<Rightarrow> (Inl x, s1)
         | Inr entity \<Rightarrow>
             (let is_forum = e_forum entity
              in if \<not> is_forum then (Inr None, s1)
                 else
                   (case m_topic_id msg of
                      Some v \<Rightarrow> (Inr v, s1)
                    | None \<Rightarrow>
                        (case m_topic msg of
                           Some v \<Rightarrow> (Inr v, s1)
                         | None \<Rightarrow>
                             (case m_reply_to msg of
                                Some reply_to \<Rightarrow> (Inr (topic_from_reply reply_to is_forum), s1)
                              | None \<Rightarrow>
                                  if is_forum \<and> m_post msg then (Inr (Some (m_id msg)), s1)
                                  else (Inr (Some 1), s1))))))"

text \<open>The \<^verbatim>\<open>except Exception\<close> clause logs, and \<^verbatim>\<open>topic_id\<close>, still \<^verbatim>\<open>None\<close>, is returned.\<close>

definition extract_topic_id :: "client \<Rightarrow> event \<Rightarrow> state \<Rightarrow> int option \<times> state" where
  "extract_topic_id cl ev s =
     (case extract_topic_id_try cl ev s of
        (Inl x, s1) \<Rightarrow> (None, s1)
      | (Inr topic_id, s1) \<Rightarrow> (topic_id, s1))"

text \<open>
  The chain in the words of the specification, for a message of a forum chat: each step
  yields an id or nothing (an attribute that is missing or holds \<^verbatim>\<open>None\<close> yields nothing), the
  first id wins, and the default is 1.
\<close>

definition id_of :: "int option option \<Rightarrow> int option" where
  "id_of a = (case a of Some (Some i) \<Rightarrow> Some i | _ \<Rightarrow> None)"

fun first_success :: "int option list \<Rightarrow> int option" where
  "first_success [] = None"
| "first_success (Some i # rest) = Some i"
| "first_success (None # rest) = first_success rest"

definition spec_topic_chain :: "message \<Rightarrow> int option" where
  "spec_topic_chain msg =
     first_success
       [id_of (m_topic_id msg),
        id_of (m_topic msg),
        (case m_reply_to msg of
           Some r \<Rightarrow> if r_forum_topic r = Some True
                     then first_success [id_of (r_top_msg_id r), id_of (r_reply_to_top_id r)]
                     else None
         | None \<Rightarrow> None),
        (case m_reply_to msg of
           Some r \<Rightarrow> first_success [id_of (r_reply_to_top_id r), id_of (r_top_msg_id r)]
         | None \<Rightarrow> None),
        (case m_reply_to msg of Some r \<Rightarrow> id_of (r_reply_to_msg_id r) | None \<Rightarrow> None),
        (if m_post msg then Some (m_id msg) else None),
        Some 1]"

text \<open>
  What the code reads instead: the value of the first attribute of the list that exists, be
  it \<^verbatim>\<open>None\<close>.
\<close>

fun first_existing :: "int option option list \<Rightarrow> int option" where
  "first_existing [] = None"
| "first_existing (Some v # rest) = v"
| "first_existing (None # rest) = first_existing rest"

section \<open>link_manager.py: LinkManager.fetch_linked_message\<close>

text \<open>
  One record of \<open>extract_message_links\<close>: the keys \<^verbatim>\<open>chat_id\<close>, \<^verbatim>\<open>username\<close> and \<^verbatim>\<open>topic_id\<close>
  are optional in the dictionary.
\<close>

record link_data =
  l_full_match :: string
  l_message_id :: int
  l_chat_id :: "string option"
  l_username :: "string option"
  l_topic_id :: "int option"

text \<open>\<^verbatim>\<open>s.isdigit()\<close> on ASCII text: non-empty and all decimal digits.\<close>

definition py_isdigit :: "string \<Rightarrow> bool" where
  "py_isdigit s = (s \<noteq> [] \<and> list_all (\<lambda>c. c \<in> set ''0123456789'') s)"

definition has_text :: "message \<Rightarrow> bool" where
  "has_text msg = (truthy (m_message msg) \<or> truthy (m_text msg) \<or> truthy (m_raw_text msg))"

text \<open>Truthiness of an optional id: \<^verbatim>\<open>None\<close> and 0 are falsy.\<close>

definition truthy_id :: "int option \<Rightarrow> bool" where
  "truthy_id v = (case v of None \<Rightarrow> False | Some i \<Rightarrow> i \<noteq> 0)"

definition cache_key_of :: "link_data \<Rightarrow> string" where
  "cache_key_of ld =
     (case l_chat_id ld of
        Some c \<Rightarrow> c
      | None \<Rightarrow> (case l_username ld of Some u \<Rightarrow> u | None \<Rightarrow> ''None''))
     @ ''-'' @ str_int (l_message_id ld)"

text \<open>
  Determining the chat: \<open>Inl\<close> when \<^verbatim>\<open>link_data['username']\<close> raises \<^verbatim>\<open>KeyError\<close>, otherwise
  what \<open>get_entity\<close> returns.
\<close>

definition resolve_link_chat ::
  "client \<Rightarrow> link_data \<Rightarrow> state \<Rightarrow> (exn + entity option) \<times> state" where
  "resolve_link_chat cl ld s =
     (case l_chat_id ld of
        Some c \<Rightarrow>
          (let chat_id = (if \<not> startswith c ''-100'' \<and> py_isdigit c then ''-100'' @ c else c);
               (chat, s1) = get_entity cl (StrId chat_id) s
           in (Inr chat, s1))
      | None \<Rightarrow>
          (case l_username ld of
             None \<Rightarrow> (Inl OtherError, s)
           | Some u \<Rightarrow>
               (let (chat, s1) = get_entity cl (StrId u) s in (Inr chat, s1))))"

definition fetch_standard ::
  "client \<Rightarrow> entity \<Rightarrow> int \<Rightarrow> state \<Rightarrow> message option \<times> state" where
  "fetch_standard cl chat msg_id s =
     (let answer = cl_messages cl (now s) chat msg_id;
          s1 = request (CallGetMessages chat msg_id) s
      in case answer of Inl x \<Rightarrow> (None, s1) | Inr found \<Rightarrow> (found, s1))"

definition fetch_in_topic ::
  "client \<Rightarrow> entity \<Rightarrow> int \<Rightarrow> int option \<Rightarrow> message option \<Rightarrow> state \<Rightarrow> message option \<times> state" where
  "fetch_in_topic cl chat msg_id topic_id msg s =
     (if truthy_id topic_id \<and> (case msg of None \<Rightarrow> True | Some m \<Rightarrow> \<not> truthy (m_message m)) then
        (let answer = cl_messages_in_topic cl (now s) chat msg_id (the topic_id);
             s1 = request (CallGetMessagesInTopic chat msg_id (the topic_id)) s
         in case answer of
              Inl x \<Rightarrow> (msg, s1)
            | Inr None \<Rightarrow> (msg, s1)
            | Inr (Some message_with_topic) \<Rightarrow>
                if has_text message_with_topic then (Some message_with_topic, s1) else (msg, s1))
      else (msg, s))"

definition fetch_raw ::
  "client \<Rightarrow> entity \<Rightarrow> int \<Rightarrow> message option \<Rightarrow> state \<Rightarrow> message option \<times> state" where
  "fetch_raw cl chat msg_id msg s =
     (if (case msg of None \<Rightarrow> True | Some m \<Rightarrow> \<not> has_text m) then
        (let answer = cl_raw_messages cl (now s) chat msg_id;
             s1 = request (CallGetRawMessages chat msg_id) s
         in case answer of
              Inl x \<Rightarrow> (msg, s1)
            | Inr [] \<Rightarrow> (msg, s1)
            | Inr (raw_message # others) \<Rightarrow>
                if truthy (m_message raw_message) then
                  (case msg of
                     None \<Rightarrow> (Some raw_message, s1)
                   | Some m \<Rightarrow> (Some (m\<lparr>m_message := m_message raw_message\<rparr>), s1))
                else (msg, s1))
      else (msg, s))"

definition fetch_linked_message ::
  "client \<Rightarrow> link_data \<Rightarrow> state \<Rightarrow> message option \<times> state" where
  "fetch_linked_message cl ld s =
     (let cache_key = cache_key_of ld
      in case resolved_message_links s cache_key of
           Some cached \<Rightarrow> (Some cached, s)
         | None \<Rightarrow>
             (case resolve_link_chat cl ld s of
                (Inl x, s1) \<Rightarrow> (None, s1)
              | (Inr None, s1) \<Rightarrow> (None, s1)
              | (Inr (Some chat), s1) \<Rightarrow>
                  (let topic_id = l_topic_id ld;
                       msg_id = l_message_id ld;
                       (msg1, s2) = fetch_standard cl chat msg_id s1;
                       (msg2, s3) = fetch_in_topic cl chat msg_id topic_id msg1 s2;
                       (msg3, s4) = fetch_raw cl chat msg_id msg2 s3
                   in case msg3 of
                        None \<Rightarrow> (None, s4)
                      | Some m \<Rightarrow>
                          (let found = m\<lparr>m_extracted_text := Some (extract_message_text m)\<rparr>
                           in (Some found,
                               s4\<lparr>resolved_message_links :=
                                    (resolved_message_links s4)(cache_key \<mapsto> found)\<rparr>)))))"

section \<open>processors.py: replies and the outgoing content\<close>

definition is_genuine_reply :: "message \<Rightarrow> int option \<Rightarrow> bool" where
  "is_genuine_reply msg topic_id =
     (case m_reply_to msg of
        None \<Rightarrow> False
      | Some r \<Rightarrow>
          (case r_reply_to_msg_id r of
             None \<Rightarrow> False
           | Some replied \<Rightarrow>
               if r_forum_topic r = Some True \<and> truthy_id topic_id then replied \<noteq> topic_id
               else True))"

definition process_replied_message ::
  "client \<Rightarrow> message \<Rightarrow> chat_ref \<Rightarrow> state \<Rightarrow> content option \<times> state" where
  "process_replied_message cl msg chat_id s =
     (case m_reply_to msg of
        None \<Rightarrow> (None, s)
      | Some r \<Rightarrow>
          (case r_reply_to_msg_id r of
             None \<Rightarrow> (None, s)
           | Some replied_msg_id \<Rightarrow>
               (let answer = cl_messages_of_chat cl (now s) chat_id replied_msg_id;
                    s1 = request (CallGetMessagesOfChat chat_id replied_msg_id) s
                in case answer of
                     Inl x \<Rightarrow> (None, s1)
                   | Inr None \<Rightarrow> (None, s1)
                   | Inr (Some replied_msg) \<Rightarrow>
                       (Some (format_message_for_forwarding replied_msg True None), s1))))"

text \<open>\<^verbatim>\<open>sep.join(parts)\<close>.\<close>

fun py_join :: "string \<Rightarrow> string list \<Rightarrow> string" where
  "py_join sep [] = []"
| "py_join sep [x] = x"
| "py_join sep (x # y # rest) = x @ sep @ py_join sep (y # rest)"

definition prepare_forwarding_content ::
  "message \<Rightarrow> string \<Rightarrow> bool \<Rightarrow> content list \<Rightarrow> string \<times> media option \<times> media list" where
  "prepare_forwarding_content msg source_info include_source_v additional_contents =
     (let message_text = extract_message_text msg;
          body = (if message_text \<noteq> [] then message_text
                  else (case m_media msg of
                          Some md \<Rightarrow> ''[Message with '' @ get_media_type_name md @ '']''
                        | None \<Rightarrow> ''[Empty message]''));
          text = (if include_source_v then source_info @ ''\<newline>\<newline>'' @ body else body);
          text = (if additional_contents \<noteq> [] then
                    text @ ''\<newline>\<newline>'' @ py_join ''\<newline>\<newline>'' (map c_text additional_contents)
                  else text);
          sendable_media = (case m_media msg of
                              Some md \<Rightarrow> if is_webpage md then None else Some md
                            | None \<Rightarrow> None);
          additional_media =
            concat (map (\<lambda>c. case c_media c of
                                Some md \<Rightarrow> if is_webpage md then [] else [md]
                              | None \<Rightarrow> []) additional_contents)
      in (text, sendable_media, additional_media))"

section \<open>forwarding.py: ForwardingManager.forward_message\<close>

text \<open>The pictograph of the source header, as its UTF-8 bytes (U+1F4E8).\<close>

definition mail_mark :: string where
  "mail_mark = [CHR 0xF0, CHR 0x9F, CHR 0x93, CHR 0xA8]"

definition is_restriction :: "exn \<Rightarrow> bool" where
  "is_restriction e = (e = ForbiddenError \<or> e = ChatAdminRequiredError \<or> e = ChannelPrivateError)"

text \<open>
  The inner \<^verbatim>\<open>try\<close> block of the native forward. \<open>True\<close> is the \<^verbatim>\<open>continue\<close>: the target is
  done. \<open>False\<close> falls through to the text-based path.
\<close>

definition try_direct_forward ::
  "client \<Rightarrow> chat_ref \<Rightarrow> message \<Rightarrow> string \<Rightarrow> int option \<Rightarrow> state \<Rightarrow> bool \<times> state" where
  "try_direct_forward cl chat_id msg to_chat_v to_topic_v s =
     (let answer = cl_forward cl (now s) to_chat_v msg;
          s1 = request (CallForward to_chat_v) s
      in case answer of
           Inr forwarded_msg \<Rightarrow>
             if truthy_id to_topic_v \<and> forwarded_msg then
               (case cl_edit cl (now s1) to_chat_v (the to_topic_v) of
                  Inl x \<Rightarrow> (True, request (CallEdit to_chat_v (the to_topic_v)) s1)
                | Inr u \<Rightarrow> (True, request (CallEdit to_chat_v (the to_topic_v)) s1))
             else (True, s1)
         | Inl e \<Rightarrow>
             if is_restriction e
             then (False, s1\<lparr>no_forward_chats := insert chat_id (no_forward_chats s1)\<rparr>)
             else (False, s1))"

text \<open>The loop over \<^verbatim>\<open>additional_media\<close>: each send has its own \<^verbatim>\<open>try\<close>.\<close>

fun send_additional :: "client \<Rightarrow> string \<Rightarrow> int option \<Rightarrow> media list \<Rightarrow> state \<Rightarrow> state" where
  "send_additional cl to_chat_v to_topic_v [] s = s"
| "send_additional cl to_chat_v to_topic_v (md # rest) s =
     (case cl_send_media cl (now s) to_chat_v to_topic_v md of
        Inl x \<Rightarrow> send_additional cl to_chat_v to_topic_v rest (request (CallSendMedia to_chat_v to_topic_v md) s)
      | Inr u \<Rightarrow> send_additional cl to_chat_v to_topic_v rest (request (CallSendMedia to_chat_v to_topic_v md) s))"

text \<open>The source attribution: the chat title, and the topic name when there is a topic.\<close>

definition source_header :: "client \<Rightarrow> chat_ref \<Rightarrow> int option \<Rightarrow> state \<Rightarrow> string \<times> state" where
  "source_header cl chat_id topic_id s =
     (let (chat_title, s1) = get_chat_title cl chat_id s;
          source_info = mail_mark @ '' Forwarded from: '' @ chat_title
      in if truthy_id topic_id then
           (let (topic_name, s2) = get_topic_name cl chat_id topic_id s1
            in if truthy topic_name then (source_info @ '' | '' @ str_of topic_name, s2)
               else (source_info, s2))
         else (source_info, s1))"

text \<open>The text-based path of one target, up to the outer \<^verbatim>\<open>except Exception\<close>.\<close>

definition send_reconstructed ::
  "client \<Rightarrow> event \<Rightarrow> content list \<Rightarrow> int option \<Rightarrow> fwd_target \<Rightarrow> state \<Rightarrow> state" where
  "send_reconstructed cl ev message_contents topic_id tg s =
     (let (source_info, s2) = source_header cl (ev_chat_id ev) topic_id s;
          (text, sendable_media, additional_media) =
            prepare_forwarding_content (ev_message ev) source_info (include_source tg)
              message_contents;
          answer = cl_send cl (now s2) (to_chat tg) text (to_topic tg) sendable_media;
          s3 = request (CallSend (to_chat tg) text (to_topic tg) sendable_media) s2
      in case answer of
           Inl x \<Rightarrow> s3
         | Inr u \<Rightarrow> send_additional cl (to_chat tg) (to_topic tg) additional_media s3)"

text \<open>One iteration of \<^verbatim>\<open>for target in forwarding_info\<close>, with both \<^verbatim>\<open>try\<close> blocks.\<close>

definition forward_one ::
  "client \<Rightarrow> event \<Rightarrow> content list \<Rightarrow> int option \<Rightarrow> bool \<Rightarrow> fwd_target \<Rightarrow> state \<Rightarrow> state" where
  "forward_one cl ev message_contents topic_id can_forward_directly tg s =
     (if can_forward_directly \<and> message_contents = [] then
        (let (finished, s1) =
               try_direct_forward cl (ev_chat_id ev) (ev_message ev) (to_chat tg) (to_topic tg) s
         in if finished then s1
            else send_reconstructed cl ev message_contents topic_id tg s1)
      else send_reconstructed cl ev message_contents topic_id tg s)"

fun forward_message ::
  "client \<Rightarrow> event \<Rightarrow> content list \<Rightarrow> int option \<Rightarrow> bool \<Rightarrow> fwd_target list \<Rightarrow> state \<Rightarrow> state" where
  "forward_message cl ev message_contents topic_id can_forward_directly [] s = s"
| "forward_message cl ev message_contents topic_id can_forward_directly (tg # rest) s =
     forward_message cl ev message_contents topic_id can_forward_directly rest
       (forward_one cl ev message_contents topic_id can_forward_directly tg s)"

section \<open>handlers.py: MessageHandler\<close>

text \<open>The loop over the links of the text: a resolved message is formatted and appended.\<close>

fun add_linked ::
  "client \<Rightarrow> link_data list \<Rightarrow> content list \<Rightarrow> state \<Rightarrow> content list \<times> state" where
  "add_linked cl [] additional_content s = (additional_content, s)"
| "add_linked cl (ld # rest) additional_content s =
     (let (linked_msg, s1) = fetch_linked_message cl ld s
      in case linked_msg of
           Some m \<Rightarrow>
             add_linked cl rest
               (additional_content @ [format_message_for_forwarding m False (Some (l_full_match ld))]) s1
         | None \<Rightarrow> add_linked cl rest additional_content s1)"

text \<open>Step 1 of \<open>process_and_forward_message\<close>: the block of a genuine reply.\<close>

definition reply_content ::
  "client \<Rightarrow> message \<Rightarrow> chat_ref \<Rightarrow> int option \<Rightarrow> state \<Rightarrow> content list \<times> state" where
  "reply_content cl msg chat_id topic_id s =
     (if is_genuine_reply msg topic_id then
        (let (replied_content, s1) = process_replied_message cl msg chat_id s
         in case replied_content of Some c \<Rightarrow> ([c], s1) | None \<Rightarrow> ([], s1))
      else ([], s))"

text \<open>
  \<open>xl\<close> stands for \<open>extract_message_links\<close>, the records the link grammar finds in a text;
  every result below holds for any such function.
\<close>

definition process_and_forward_message ::
  "client \<Rightarrow> (string \<Rightarrow> link_data list) \<Rightarrow> event \<Rightarrow> fwd_target list \<Rightarrow> int option \<Rightarrow> bool \<Rightarrow>
   state \<Rightarrow> state" where
  "process_and_forward_message cl xl ev forwarding_info topic_id can_forward_directly s =
     (let msg = ev_message ev;
          chat_id = ev_chat_id ev;
          (additional_content, s1) = reply_content cl msg chat_id topic_id s;
          message_links = (if truthy (m_text msg) then xl (str_of (m_text msg)) else []);
          (additional_content, s2) = add_linked cl message_links additional_content s1
      in forward_message cl ev additional_content topic_id can_forward_directly forwarding_info s2)"

text \<open>
  The first half of \<open>handle_new_message\<close>: the extracted text is stored on the message, the
  sender id and the topic id are determined and the rules are matched.
\<close>

definition decide ::
  "rule_table \<Rightarrow> client \<Rightarrow> event \<Rightarrow> state \<Rightarrow> (event \<times> int option \<times> fwd_target list) \<times> state" where
  "decide rules cl ev s =
     (let chat_id = ev_chat_id ev;
          msg = ev_message ev;
          message_text = extract_message_text msg;
          ev1 = ev\<lparr>ev_message := msg\<lparr>m_extracted_text := Some message_text\<rparr>\<rparr>;
          sender_id = (case m_sender msg of
                         Inl x \<Rightarrow> None
                       | Inr None \<Rightarrow> None
                       | Inr (Some sd) \<Rightarrow> s_id sd);
          (topic_id, s1) = extract_topic_id cl ev1 s;
          forwarding_info = should_forward rules chat_id topic_id sender_id
      in ((ev1, topic_id, forwarding_info), s1))"

definition handle_new_message ::
  "rule_table \<Rightarrow> client \<Rightarrow> (string \<Rightarrow> link_data list) \<Rightarrow> event \<Rightarrow> state \<Rightarrow> state" where
  "handle_new_message rules cl xl ev s =
     (let ((ev1, topic_id, forwarding_info), s1) = decide rules cl ev s
      in if forwarding_info \<noteq> [] then
           (let (can_forward, s2) = can_forward_from_chat cl (ev_chat_id ev) s1
            in process_and_forward_message cl xl ev1 forwarding_info topic_id can_forward s2)
         else s1)"

text \<open>
  A run of the process: any sequence of the operations that touch the shared state, each
  with the transport of its moment. The debug commands use the last three.
\<close>

datatype operation =
    OpNewMessage client event
  | OpGetEntity client chat_ref
  | OpCanForward client chat_ref
  | OpFetchLinked client link_data

fun step :: "rule_table \<Rightarrow> (string \<Rightarrow> link_data list) \<Rightarrow> operation \<Rightarrow> state \<Rightarrow> state" where
  "step rules xl (OpNewMessage cl ev) s = handle_new_message rules cl xl ev s"
| "step rules xl (OpGetEntity cl chat_id) s = snd (get_entity cl chat_id s)"
| "step rules xl (OpCanForward cl chat_id) s = snd (can_forward_from_chat cl chat_id s)"
| "step rules xl (OpFetchLinked cl ld) s = snd (fetch_linked_message cl ld s)"

fun run :: "rule_table \<Rightarrow> (string \<Rightarrow> link_data list) \<Rightarrow> operation list \<Rightarrow> state \<Rightarrow> state" where
  "run rules xl [] s = s"
| "run rules xl (operation # rest) s = run rules xl rest (step rules xl operation s)"

text \<open>The kinds of request.\<close>

fun is_native :: "call \<Rightarrow> bool" where
  "is_native (CallForward c) = True"
| "is_native (CallEdit c t) = True"
| "is_native other = False"

fun is_lookup :: "call \<Rightarrow> bool" where
  "is_lookup (CallForward c) = False"
| "is_lookup (CallEdit c t) = False"
| "is_lookup (CallSend c x t m) = False"
| "is_lookup (CallSendMedia c t m) = False"
| "is_lookup other = True"

definition is_send_to :: "fwd_target \<Rightarrow> call \<Rightarrow> bool" where
  "is_send_to tg c = (case c of CallSend c' x t m \<Rightarrow> c' = to_chat tg \<and> t = to_topic tg | _ \<Rightarrow> False)"

definition is_delivery_to :: "fwd_target \<Rightarrow> call \<Rightarrow> bool" where
  "is_delivery_to tg c = (c = CallForward (to_chat tg) \<or> is_send_to tg c)"

text \<open>
  Between two states only lookups were requested and the no-forward set is the same; and a
  segment of requests that serves a target by the text-based path alone.
\<close>

definition lookup_only :: "state \<Rightarrow> state \<Rightarrow> bool" where
  "lookup_only s s' \<longleftrightarrow>
     no_forward_chats s' = no_forward_chats s \<and>
     (\<exists>seg. calls s' = calls s @ seg \<and> (\<forall>c \<in> set seg. is_lookup c))"

definition reconstructed_for :: "fwd_target \<Rightarrow> call list \<Rightarrow> bool" where
  "reconstructed_for tg seg \<longleftrightarrow> (\<exists>c \<in> set seg. is_send_to tg c) \<and> (\<forall>c \<in> set seg. \<not> is_native c)"

section \<open>Concrete inputs\<close>

text \<open>A forum supergroup, and a transport that resolves every chat to it, refuses native
  forwarding and accepts every send.\<close>

definition forum_entity :: entity where
  "forum_entity = \<lparr>e_title = Some ''Forum'', e_forum = True, e_is_channel = True,
     e_megagroup = True, e_noforwards = False\<rparr>"

definition plain_client :: client where
  "plain_client = \<lparr>
     cl_get_entity_int = (\<lambda>t c. Inr forum_entity),
     cl_get_entity = (\<lambda>t c. Inr forum_entity),
     cl_full_channel = (\<lambda>t e. Inl OtherError),
     cl_topic_message = (\<lambda>t e i. Inl OtherError),
     cl_discussion = (\<lambda>t e i. Inl OtherError),
     cl_messages_of_chat = (\<lambda>t c i. Inl OtherError),
     cl_messages = (\<lambda>t e i. Inl OtherError),
     cl_messages_in_topic = (\<lambda>t e i j. Inl OtherError),
     cl_raw_messages = (\<lambda>t e i. Inl OtherError),
     cl_forward = (\<lambda>t c m. Inl ForbiddenError),
     cl_edit = (\<lambda>t c i. Inl OtherError),
     cl_send = (\<lambda>t c x i m. Inr ()),
     cl_send_media = (\<lambda>t c i m. Inr ())\<rparr>"

text \<open>A transport on which every request raises, an event of chat 5, two targets, a link.\<close>

definition failing_client :: client where
  "failing_client = \<lparr>
     cl_get_entity_int = (\<lambda>t c. Inl OtherError),
     cl_get_entity = (\<lambda>t c. Inl OtherError),
     cl_full_channel = (\<lambda>t e. Inl OtherError),
     cl_topic_message = (\<lambda>t e i. Inl OtherError),
     cl_discussion = (\<lambda>t e i. Inl OtherError),
     cl_messages_of_chat = (\<lambda>t c i. Inl OtherError),
     cl_messages = (\<lambda>t e i. Inl OtherError),
     cl_messages_in_topic = (\<lambda>t e i j. Inl OtherError),
     cl_raw_messages = (\<lambda>t e i. Inl OtherError),
     cl_forward = (\<lambda>t c m. Inl OtherError),
     cl_edit = (\<lambda>t c i. Inl OtherError),
     cl_send = (\<lambda>t c x i m. Inl OtherError),
     cl_send_media = (\<lambda>t c i m. Inl OtherError)\<rparr>"

definition ev5 :: event where
  "ev5 = \<lparr>ev_chat_id = IntId 5, ev_message = amy_msg\<rparr>"

definition tgA :: fwd_target where
  "tgA = \<lparr>to_chat = ''100'', to_topic = None, include_source = True\<rparr>"

definition tgB :: fwd_target where
  "tgB = \<lparr>to_chat = ''200'', to_topic = None, include_source = True\<rparr>"

definition link5 :: link_data where
  "link5 = \<lparr>l_full_match = ''https://t.me/c/5/10'', l_message_id = 10, l_chat_id = Some ''5'',
     l_username = None, l_topic_id = None\<rparr>"

text \<open>
  Messages of a forum chat: one whose reply header carries no id, one whose \<^verbatim>\<open>topic_id\<close>
  attribute holds \<^verbatim>\<open>None\<close>, a reply inside topic 40 to message 77, and a reply to message 77
  whose top id is \<^verbatim>\<open>None\<close>.
\<close>

definition bare_reply_msg :: message where
  "bare_reply_msg = amy_msg\<lparr>m_reply_to :=
     Some \<lparr>r_forum_topic = None, r_top_msg_id = None, r_reply_to_top_id = None,
            r_reply_to_msg_id = None\<rparr>\<rparr>"

definition null_topic_msg :: message where
  "null_topic_msg = amy_msg\<lparr>m_topic_id := Some None\<rparr>"

definition topic_reply_msg :: message where
  "topic_reply_msg = amy_msg\<lparr>m_reply_to :=
     Some \<lparr>r_forum_topic = Some True, r_top_msg_id = None, r_reply_to_top_id = Some (Some 40),
            r_reply_to_msg_id = Some (Some 77)\<rparr>\<rparr>"

definition first_reply_msg :: message where
  "first_reply_msg = amy_msg\<lparr>m_reply_to :=
     Some \<lparr>r_forum_topic = Some True, r_top_msg_id = None, r_reply_to_top_id = Some None,
            r_reply_to_msg_id = Some (Some 77)\<rparr>\<rparr>"

text \<open>
  A state in which the chat of the link is cached, and a transport that also returns the
  linked message.
\<close>

definition cached5_state :: state where
  "cached5_state = initial_state\<lparr>chat_entities := [StrId ''-1005'' \<mapsto> forum_entity]\<rparr>"

definition working_client :: client where
  "working_client = plain_client\<lparr>cl_messages := \<lambda>t e i. Inr (Some amy_msg)\<rparr>"

section \<open>Properties of normalization\<close>

lemma startswith_iff: "startswith s p \<longleftrightarrow> (\<exists>rest. s = p @ rest)"
  unfolding startswith_def
  by (metis append_eq_conv_conj append_take_drop_id)

lemma lstrip_replicate:
  "body = [] \<or> hd body \<noteq> c \<Longrightarrow> lstrip c (replicate n c @ body) = body"
  by (induction n) (cases body; auto)+

lemma str_int_1234: "str_int 1234 = ''1234''"
  by (simp add: str_int_def str_nat.simps digit_char_def)

text \<open>
  Claim C5. For every chat identifier, numeric or string: when its text form is
  \<open>''-100'' @ rest\<close> the candidates are exactly the text as it is, \<open>rest\<close> (the prefix
  stripped) and \<open>rest\<close> with a single minus sign; otherwise, with the text form being
  \<open>n\<close> minus signs followed by a body that does not start with a minus sign, the candidates
  are exactly the text as it is and \<open>''-100''\<close> followed by that body.
\<close>

theorem normalize_chat_id_candidates:
  "(py_str cid = ''-100'' @ rest \<longrightarrow>
      normalize_chat_id cid = [''-100'' @ rest, rest, ''-'' @ rest]) \<and>
   ((\<forall>r. py_str cid \<noteq> ''-100'' @ r) \<and> py_str cid = replicate n CHR ''-'' @ body \<and>
    (body = [] \<or> hd body \<noteq> CHR ''-'') \<longrightarrow>
      normalize_chat_id cid = [py_str cid, ''-100'' @ body])"
proof (intro conjI impI)
  assume h: "py_str cid = ''-100'' @ rest"
  then have "startswith (py_str cid) ''-100''"
    by (simp add: startswith_def)
  with h show "normalize_chat_id cid = [''-100'' @ rest, rest, ''-'' @ rest]"
    by (simp add: normalize_chat_id_def slice_from_def)
next
  assume h: "(\<forall>r. py_str cid \<noteq> ''-100'' @ r) \<and> py_str cid = replicate n CHR ''-'' @ body \<and>
    (body = [] \<or> hd body \<noteq> CHR ''-'')"
  then have ns: "\<not> startswith (py_str cid) ''-100''"
    unfolding startswith_iff by metis
  from h have "lstrip CHR ''-'' (py_str cid) = body"
    using lstrip_replicate [of body "CHR ''-''" n] by simp
  with ns show "normalize_chat_id cid = [py_str cid, ''-100'' @ body]"
    by (simp add: normalize_chat_id_def)
qed

theorem normalize_chat_id_candidates_witness:
  "normalize_chat_id (IntId (-1001234)) = [''-1001234'', ''1234'', ''-1234''] \<and>
   normalize_chat_id (StrId ''--12'') = [''--12'', ''-10012'']"
proof -
  have a: "py_str (IntId (-1001234)) = ''-100'' @ ''1234''"
    by (simp add: py_str_def str_int_def str_nat.simps digit_char_def)
  have b: "(\<forall>r. py_str (StrId ''--12'') \<noteq> ''-100'' @ r) \<and>
           py_str (StrId ''--12'') = replicate 2 CHR ''-'' @ ''12'' \<and>
           (''12'' = [] \<or> hd ''12'' \<noteq> CHR ''-'')"
    by (simp add: py_str_def numeral_2_eq_2)
  show ?thesis
    using normalize_chat_id_candidates [of "IntId (-1001234)" "''1234''" 0 "[]"]
          normalize_chat_id_candidates [of "StrId ''--12''" "[]" 2 "''12''"] a b
    by (simp add: py_str_def)
qed

text \<open>
  Claim C6. Normalization is a function of the identifier alone (it is a HOL function, so
  equal inputs give equal candidate lists), and it is stable: normalizing any candidate
  it produced gives a list that contains that candidate.
\<close>

theorem normalize_chat_id_stable:
  "\<forall>c \<in> set (normalize_chat_id cid). c \<in> set (normalize_chat_id (StrId c))"
  by (simp add: normalize_chat_id_def py_str_def Let_def)

theorem normalize_chat_id_stable_witness:
  "''1234'' \<in> set (normalize_chat_id (IntId (-1001234))) \<and>
   ''1234'' \<in> set (normalize_chat_id (StrId ''1234''))"
proof -
  have a: "''1234'' \<in> set (normalize_chat_id (IntId (-1001234)))"
    by (simp add: normalize_chat_id_def py_str_def str_int_def str_nat.simps digit_char_def
        startswith_def slice_from_def)
  from a normalize_chat_id_stable [of "IntId (-1001234)"] show ?thesis by blast
qed

section \<open>Properties of rule matching\<close>

lemma collect_targets_filter:
  "collect_targets uid tgs acc =
     acc @ map make_fwd_target (filter (\<lambda>tg. \<not> spec_filter_excludes uid tg) tgs)"
  by (induction tgs arbitrary: acc)
     (auto simp: spec_filter_excludes_def Let_def split: option.splits)

lemma find_matching_rules_none:
  "\<forall>k \<in> set ks. rules k = None \<Longrightarrow> find_matching_rules rules ks = None"
  by (induction ks) auto

lemma find_matching_rules_first:
  "\<forall>k' \<in> set ks1. rules k' = None \<Longrightarrow> rules k = Some entry \<Longrightarrow>
   find_matching_rules rules (ks1 @ k # ks2) = Some entry"
  by (induction ks1) auto

lemma should_forward_matched:
  "find_matching_rules rules (normalize_chat_id cid) = Some entry \<Longrightarrow>
   should_forward rules cid topic uid =
     map make_fwd_target (filter (\<lambda>tg. \<not> spec_filter_excludes uid tg) (entry_targets entry ''*'')) @
     (case topic of None \<Rightarrow> []
      | Some t \<Rightarrow> map make_fwd_target
                   (filter (\<lambda>tg. \<not> spec_filter_excludes uid tg) (entry_targets entry (str_int t))))"
  by (simp add: should_forward_def entry_targets_def collect_targets_filter
           split: option.splits)

text \<open>
  Claim C1. The candidate keys are probed in order and the first one present in the table
  is the sole matched entry: with \<open>k\<close> the first candidate the table holds, whatever the
  table holds under the later candidates \<open>ks2\<close>, the decision is the \<^verbatim>\<open>"*"\<close> targets of
  that entry that pass the user filter followed by the targets under the topic id's string
  form that pass it, and the number of returned targets is the sum of the two counts. When
  no candidate is a key of the table, and so for the empty table, the decision is empty.
\<close>

theorem should_forward_first_match:
  "(normalize_chat_id cid = ks1 @ k # ks2 \<and> (\<forall>k' \<in> set ks1. rules k' = None) \<and>
    rules k = Some entry \<longrightarrow>
      should_forward rules cid topic uid =
        map make_fwd_target
          (filter (\<lambda>tg. \<not> spec_filter_excludes uid tg) (entry_targets entry ''*'')) @
        (case topic of None \<Rightarrow> []
         | Some t \<Rightarrow> map make_fwd_target
             (filter (\<lambda>tg. \<not> spec_filter_excludes uid tg) (entry_targets entry (str_int t)))) \<and>
      length (should_forward rules cid topic uid) =
        length (filter (\<lambda>tg. \<not> spec_filter_excludes uid tg) (entry_targets entry ''*'')) +
        (case topic of None \<Rightarrow> 0
         | Some t \<Rightarrow> length
             (filter (\<lambda>tg. \<not> spec_filter_excludes uid tg) (entry_targets entry (str_int t))))) \<and>
   ((\<forall>k \<in> set (normalize_chat_id cid). rules k = None) \<longrightarrow>
      should_forward rules cid topic uid = []) \<and>
   should_forward Map.empty cid topic uid = []"
proof (intro conjI impI)
  assume h: "normalize_chat_id cid = ks1 @ k # ks2 \<and> (\<forall>k' \<in> set ks1. rules k' = None) \<and>
    rules k = Some entry"
  then have m: "find_matching_rules rules (normalize_chat_id cid) = Some entry"
    by (simp add: find_matching_rules_first)
  show "should_forward rules cid topic uid =
        map make_fwd_target
          (filter (\<lambda>tg. \<not> spec_filter_excludes uid tg) (entry_targets entry ''*'')) @
        (case topic of None \<Rightarrow> []
         | Some t \<Rightarrow> map make_fwd_target
             (filter (\<lambda>tg. \<not> spec_filter_excludes uid tg) (entry_targets entry (str_int t))))"
    by (rule should_forward_matched [OF m])
  show "length (should_forward rules cid topic uid) =
        length (filter (\<lambda>tg. \<not> spec_filter_excludes uid tg) (entry_targets entry ''*'')) +
        (case topic of None \<Rightarrow> 0
         | Some t \<Rightarrow> length
             (filter (\<lambda>tg. \<not> spec_filter_excludes uid tg) (entry_targets entry (str_int t))))"
    by (simp add: should_forward_matched [OF m] split: option.splits)
next
  assume "\<forall>k \<in> set (normalize_chat_id cid). rules k = None"
  then show "should_forward rules cid topic uid = []"
    by (simp add: should_forward_def find_matching_rules_none)
next
  show "should_forward Map.empty cid topic uid = []"
    by (simp add: should_forward_def find_matching_rules_none)
qed

theorem should_forward_first_match_witness:
  "should_forward
     [''-1001234'' \<mapsto> [''*'' \<mapsto> [\<lparr>t_chat_id = ''999'', t_topic_id = None, t_user_ids = None\<rparr>]],
      ''-1234'' \<mapsto> [''*'' \<mapsto> [\<lparr>t_chat_id = ''555'', t_topic_id = None, t_user_ids = None\<rparr>]]]
     (StrId ''1234'') None None =
   [\<lparr>to_chat = ''999'', to_topic = None, include_source = True\<rparr>] \<and>
   should_forward [''77'' \<mapsto> Map.empty] (IntId 1234) None None = []"
proof -
  let ?r = "[''-1001234'' \<mapsto> [''*'' \<mapsto> [\<lparr>t_chat_id = ''999'', t_topic_id = None, t_user_ids = None\<rparr>]],
      ''-1234'' \<mapsto> [''*'' \<mapsto> [\<lparr>t_chat_id = ''555'', t_topic_id = None, t_user_ids = None\<rparr>]]]"
  let ?e = "[''*'' \<mapsto> [\<lparr>t_chat_id = ''999'', t_topic_id = None, t_user_ids = None\<rparr>]]"
  have n: "normalize_chat_id (StrId ''1234'') = [''1234''] @ ''-1001234'' # []"
    by (simp add: normalize_chat_id_def py_str_def startswith_def Let_def)
  have a: "normalize_chat_id (StrId ''1234'') = [''1234''] @ ''-1001234'' # [] \<and>
           (\<forall>k' \<in> set [''1234'']. ?r k' = None) \<and> ?r ''-1001234'' = Some ?e"
    using n by simp
  have b: "\<forall>k \<in> set (normalize_chat_id (IntId 1234)). [''77'' \<mapsto> Map.empty] k = None"
    by (simp add: normalize_chat_id_def py_str_def startswith_def Let_def str_int_1234)
  have r1: "should_forward ?r (StrId ''1234'') None None =
      [\<lparr>to_chat = ''999'', to_topic = None, include_source = True\<rparr>]"
    using should_forward_first_match
      [of "StrId ''1234''" "[''1234'']" "''-1001234''" "[]" ?r ?e None None] a
    by (simp add: entry_targets_def spec_filter_excludes_def get_user_ids_def make_fwd_target_def)
  have r2: "should_forward [''77'' \<mapsto> Map.empty] (IntId 1234) None None = []"
    using should_forward_first_match
      [of "IntId 1234" "[]" "[]" "[]" "[''77'' \<mapsto> Map.empty]" Map.empty None None] b
    by blast
  show ?thesis using r1 r2 by simp
qed

text \<open>
  Claim C2. Every target evaluated by \<open>should_forward\<close> (the \<^verbatim>\<open>"*"\<close> targets and the
  topic targets of the matched entry) is left out of the decision iff its filter list is
  non-empty and the sender id is known and absent from the list. A target with
  \<^verbatim>\<open>user_ids=[42]\<close> is included for sender 42, excluded for sender 7 and included for an
  unknown sender.
\<close>

theorem user_filter_excludes_iff:
  "(find_matching_rules rules (normalize_chat_id cid) = Some entry \<longrightarrow>
      should_forward rules cid topic uid =
        map make_fwd_target
          (filter (\<lambda>tg. \<not> (get_user_ids tg \<noteq> [] \<and> (\<exists>u. uid = Some u \<and> u \<notin> set (get_user_ids tg))))
             (entry_targets entry ''*'' @
              (case topic of None \<Rightarrow> [] | Some t \<Rightarrow> entry_targets entry (str_int t))))) \<and>
   (t_user_ids tg = Some [42] \<longrightarrow>
      should_forward [k \<mapsto> [''*'' \<mapsto> [tg]]] (StrId k) None (Some 42) = [make_fwd_target tg] \<and>
      should_forward [k \<mapsto> [''*'' \<mapsto> [tg]]] (StrId k) None (Some 7) = [] \<and>
      should_forward [k \<mapsto> [''*'' \<mapsto> [tg]]] (StrId k) None None = [make_fwd_target tg])"
proof (intro conjI impI)
  have e: "(\<lambda>tg. \<not> (get_user_ids tg \<noteq> [] \<and> (\<exists>u. uid = Some u \<and> u \<notin> set (get_user_ids tg)))) =
           (\<lambda>tg. \<not> spec_filter_excludes uid tg)"
    by (auto simp: spec_filter_excludes_def fun_eq_iff split: option.splits)
  assume "find_matching_rules rules (normalize_chat_id cid) = Some entry"
  then show "should_forward rules cid topic uid =
        map make_fwd_target
          (filter (\<lambda>tg. \<not> (get_user_ids tg \<noteq> [] \<and> (\<exists>u. uid = Some u \<and> u \<notin> set (get_user_ids tg))))
             (entry_targets entry ''*'' @
              (case topic of None \<Rightarrow> [] | Some t \<Rightarrow> entry_targets entry (str_int t))))"
    unfolding e by (simp add: should_forward_matched split: option.splits)
next
  assume u: "t_user_ids tg = Some [42]"
  have m: "find_matching_rules [k \<mapsto> [''*'' \<mapsto> [tg]]] (normalize_chat_id (StrId k)) = Some [''*'' \<mapsto> [tg]]"
    by (simp add: normalize_chat_id_def py_str_def Let_def)
  show "should_forward [k \<mapsto> [''*'' \<mapsto> [tg]]] (StrId k) None (Some 42) = [make_fwd_target tg]"
    using u by (simp add: should_forward_matched [OF m] entry_targets_def spec_filter_excludes_def
        get_user_ids_def)
  show "should_forward [k \<mapsto> [''*'' \<mapsto> [tg]]] (StrId k) None (Some 7) = []"
    using u by (simp add: should_forward_matched [OF m] entry_targets_def spec_filter_excludes_def
        get_user_ids_def)
  show "should_forward [k \<mapsto> [''*'' \<mapsto> [tg]]] (StrId k) None None = [make_fwd_target tg]"
    using u by (simp add: should_forward_matched [OF m] entry_targets_def spec_filter_excludes_def
        get_user_ids_def)
qed

theorem user_filter_excludes_iff_witness:
  "should_forward [''5'' \<mapsto> [''*'' \<mapsto> [\<lparr>t_chat_id = ''9'', t_topic_id = Some 3, t_user_ids = Some [42]\<rparr>]]]
     (StrId ''5'') None (Some 42) = [\<lparr>to_chat = ''9'', to_topic = Some 3, include_source = True\<rparr>] \<and>
   should_forward [''5'' \<mapsto> [''*'' \<mapsto> [\<lparr>t_chat_id = ''9'', t_topic_id = Some 3, t_user_ids = Some [42]\<rparr>]]]
     (StrId ''5'') None (Some 7) = [] \<and>
   should_forward [''5'' \<mapsto> [''*'' \<mapsto> [\<lparr>t_chat_id = ''9'', t_topic_id = Some 3, t_user_ids = Some [42]\<rparr>]]]
     (StrId ''5'') None None = [\<lparr>to_chat = ''9'', to_topic = Some 3, include_source = True\<rparr>]"
proof -
  let ?tg = "\<lparr>t_chat_id = ''9'', t_topic_id = Some 3, t_user_ids = Some [42]\<rparr>"
  let ?e = "[''*'' \<mapsto> [?tg]]"
  let ?r = "[''5'' \<mapsto> ?e]"
  have m: "find_matching_rules ?r (normalize_chat_id (StrId ''5'')) = Some ?e"
    by (simp add: normalize_chat_id_def py_str_def Let_def)
  have u: "t_user_ids ?tg = Some [42]" by simp
  have a: "should_forward ?r (StrId ''5'') None (Some 7) = []"
    using user_filter_excludes_iff [of ?r "StrId ''5''" ?e None "Some 7" ?tg "''5''"] m
    by (simp add: entry_targets_def get_user_ids_def)
  have b: "should_forward ?r (StrId ''5'') None (Some 42) = [make_fwd_target ?tg] \<and>
           should_forward ?r (StrId ''5'') None None = [make_fwd_target ?tg]"
    using user_filter_excludes_iff [of ?r "StrId ''5''" ?e None "Some 7" ?tg "''5''"] u
    by blast
  from a b show ?thesis by (simp add: make_fwd_target_def)
qed

section \<open>Properties of the formatter\<close>

lemma sender_name_of_spec:
  "sender_name_of (Inr (Some x)) = spec_sender_display x"
  by (simp add: sender_name_of_def spec_sender_display_def Let_def truthy_def str_of_def
           split: option.splits)

lemma sender_name_of_unknown:
  "sender_name_of (Inl e) = ''Unknown User''" "sender_name_of (Inr None) = ''Unknown User''"
  by (simp_all add: sender_name_of_def)

text \<open>
  Claim C8, as amended. The formatted text is the prefix, the sender display between
  \<^verbatim>\<open>**\<close> and \<^verbatim>\<open>:**\<close>, a space, and the body or its placeholder. The prefix is a pictograph,
  \<^verbatim>\<open> **In reply to:**\<close> and a line break for a reply; a pictograph, \<^verbatim>\<open> **Linked message:** \<close>,
  the link and a line break for a linked message; empty otherwise. The sender display is the
  first name, then a space and the last name if there is one, then \<^verbatim>\<open> (@username)\<close> if there
  is one; with no name field it is \<^verbatim>\<open>User {id}\<close>, and \<^verbatim>\<open>Unknown User\<close> without an id, without
  a sender, or when the sender lookup raises. A sender with only the first name Amy is
  displayed as \<^verbatim>\<open>Amy\<close>, a sender with no fields as \<^verbatim>\<open>Unknown User\<close>.
\<close>

theorem format_message_markup:
  "c_text (format_message_for_forwarding msg is_reply linked_from) =
     (if is_reply then reply_mark @ '' **In reply to:**\<newline>''
      else if truthy linked_from then
        link_mark @ '' **Linked message:** '' @ str_of linked_from @ ''\<newline>''
      else [])
     @ ''**''
     @ (case m_sender msg of Inr (Some x) \<Rightarrow> spec_sender_display x | _ \<Rightarrow> ''Unknown User'')
     @ '':** '' @ message_text_of msg \<and>
   spec_sender_display \<lparr>s_first_name = Some ''Amy'', s_last_name = None, s_username = None, s_id = i\<rparr>
     = ''Amy'' \<and>
   spec_sender_display \<lparr>s_first_name = None, s_last_name = None, s_username = None, s_id = None\<rparr>
     = ''Unknown User''"
  by (simp add: format_message_for_forwarding_def prefix_of_def sender_name_of_spec
        sender_name_of_unknown spec_sender_display_def truthy_def str_of_def
      split: sum.splits option.splits)

text \<open>
  Claim C8 as stated fails: for a plain message from Amy with body \<^verbatim>\<open>hi\<close> the code builds
  \<^verbatim>\<open>**Amy:** hi\<close>, not \<^verbatim>\<open>Amy: hi\<close>.
\<close>

theorem format_plain_counterexample:
  "c_text (format_message_for_forwarding amy_msg False None) = ''**Amy:** hi'' \<and>
   c_text (format_message_for_forwarding amy_msg False None) \<noteq>
     spec_format amy_msg \<lparr>s_first_name = Some ''Amy'', s_last_name = None,
                             s_username = None, s_id = Some 5\<rparr> False None \<and>
   spec_format amy_msg \<lparr>s_first_name = Some ''Amy'', s_last_name = None,
                             s_username = None, s_id = Some 5\<rparr> False None = ''Amy: hi''"
  by (simp add: format_message_for_forwarding_def amy_msg_def prefix_of_def sender_name_of_def
        message_text_of_def spec_format_def spec_prefix_def spec_sender_display_def
        truthy_def str_of_def)

theorem format_message_markup_witness:
  "c_text (format_message_for_forwarding amy_msg True None) =
     reply_mark @ '' **In reply to:**\<newline>**Amy:** hi''"
  using format_message_markup [of amy_msg True None "Some 5"]
  by (simp add: amy_msg_def message_text_of_def truthy_def str_of_def spec_sender_display_def)

section \<open>Properties of topic resolution and topic names\<close>

text \<open>
  Claim C3, as amended. Topic resolution takes the first branch that applies, and that branch
  decides alone. A chat that is not a forum has no topic. In a forum, a message with a
  \<^verbatim>\<open>topic_id\<close> attribute resolves to its value, be it \<^verbatim>\<open>None\<close>; otherwise one with a \<^verbatim>\<open>topic\<close>
  attribute resolves to its value; otherwise one with a reply header resolves to the value of
  the first existing attribute among \<^verbatim>\<open>top_msg_id\<close>, \<^verbatim>\<open>reply_to_top_id\<close> (in this order for a
  header flagged as a forum topic, in the other order else), and when that gives no id to the
  value of \<^verbatim>\<open>reply_to_msg_id\<close>, and to none when the header gives no id at all; otherwise a post
  resolves to its own id; otherwise the topic is 1. So a forum message with no topic
  attribute, no reply header and not a post resolves to 1. When the entity lookup raises, the
  exception is caught and the resolved topic is none: the result is always a value.
\<close>

theorem extract_topic_id_branches:
  "(cl_get_entity cl (now s) (ev_chat_id ev) = Inl x \<longrightarrow>
      fst (extract_topic_id_try cl ev s) = Inl x \<and> fst (extract_topic_id cl ev s) = None) \<and>
   (cl_get_entity cl (now s) (ev_chat_id ev) = Inr e \<and> \<not> e_forum e \<longrightarrow>
      fst (extract_topic_id cl ev s) = None) \<and>
   (cl_get_entity cl (now s) (ev_chat_id ev) = Inr e \<and> e_forum e \<longrightarrow>
      (m_topic_id (ev_message ev) = Some v \<longrightarrow> fst (extract_topic_id cl ev s) = v) \<and>
      (m_topic_id (ev_message ev) = None \<and> m_topic (ev_message ev) = Some v \<longrightarrow>
         fst (extract_topic_id cl ev s) = v) \<and>
      (m_topic_id (ev_message ev) = None \<and> m_topic (ev_message ev) = None \<and>
       m_reply_to (ev_message ev) = Some r \<longrightarrow>
         fst (extract_topic_id cl ev s) =
           (case first_existing (if r_forum_topic r = Some True
                                 then [r_top_msg_id r, r_reply_to_top_id r]
                                 else [r_reply_to_top_id r, r_top_msg_id r]) of
              Some t \<Rightarrow> Some t
            | None \<Rightarrow> first_existing [r_reply_to_msg_id r])) \<and>
      (m_topic_id (ev_message ev) = None \<and> m_topic (ev_message ev) = None \<and>
       m_reply_to (ev_message ev) = None \<and> m_post (ev_message ev) \<longrightarrow>
         fst (extract_topic_id cl ev s) = Some (m_id (ev_message ev))) \<and>
      (m_topic_id (ev_message ev) = None \<and> m_topic (ev_message ev) = None \<and>
       m_reply_to (ev_message ev) = None \<and> \<not> m_post (ev_message ev) \<longrightarrow>
         fst (extract_topic_id cl ev s) = Some 1))"
  by (auto simp: extract_topic_id_def extract_topic_id_try_def topic_from_reply_def Let_def
        split: option.splits)

text \<open>
  Claim C3 as stated fails: the first success does not always win. In a forum, a message
  whose reply header carries no id, and a message whose \<^verbatim>\<open>topic_id\<close> attribute holds
  \<^verbatim>\<open>None\<close>, resolve to none, where the chain of the specification reaches its default 1.
\<close>

theorem extract_topic_id_chain_counterexample:
  "fst (extract_topic_id plain_client \<lparr>ev_chat_id = IntId 5, ev_message = bare_reply_msg\<rparr>
          initial_state) = None \<and>
   spec_topic_chain bare_reply_msg = Some 1 \<and>
   fst (extract_topic_id plain_client \<lparr>ev_chat_id = IntId 5, ev_message = null_topic_msg\<rparr>
          initial_state) = None \<and>
   spec_topic_chain null_topic_msg = Some 1"
  by (simp add: extract_topic_id_def extract_topic_id_try_def topic_from_reply_def Let_def
        plain_client_def forum_entity_def bare_reply_msg_def null_topic_msg_def amy_msg_def
        spec_topic_chain_def id_of_def)

theorem extract_topic_id_branches_witness:
  "fst (extract_topic_id plain_client \<lparr>ev_chat_id = IntId 5, ev_message = amy_msg\<rparr> initial_state)
     = Some 1 \<and>
   fst (extract_topic_id plain_client \<lparr>ev_chat_id = IntId 5, ev_message = topic_reply_msg\<rparr>
          initial_state) = Some 40 \<and>
   fst (extract_topic_id plain_client \<lparr>ev_chat_id = IntId 5, ev_message = first_reply_msg\<rparr>
          initial_state) = Some 77 \<and>
   fst (extract_topic_id plain_client
          \<lparr>ev_chat_id = IntId 5, ev_message = amy_msg\<lparr>m_topic := Some (Some 8)\<rparr>\<rparr>
          initial_state) = Some 8 \<and>
   fst (extract_topic_id plain_client
          \<lparr>ev_chat_id = IntId 5, ev_message = amy_msg\<lparr>m_id := 9, m_post := True\<rparr>\<rparr>
          initial_state) = Some 9 \<and>
   fst (extract_topic_id (plain_client\<lparr>cl_get_entity := \<lambda>t c. Inl OtherError\<rparr>)
          \<lparr>ev_chat_id = IntId 5, ev_message = amy_msg\<rparr> initial_state) = None \<and>
   fst (extract_topic_id (plain_client\<lparr>cl_get_entity := \<lambda>t c. Inr (forum_entity\<lparr>e_forum := False\<rparr>)\<rparr>)
          \<lparr>ev_chat_id = IntId 5, ev_message = amy_msg\<rparr> initial_state) = None"
proof -
  let ?r1 = "\<lparr>r_forum_topic = Some True, r_top_msg_id = None, r_reply_to_top_id = Some (Some 40),
            r_reply_to_msg_id = Some (Some 77)\<rparr>"
  let ?r2 = "\<lparr>r_forum_topic = Some True, r_top_msg_id = None, r_reply_to_top_id = Some None,
            r_reply_to_msg_id = Some (Some 77)\<rparr>"
  have f: "cl_get_entity plain_client (now initial_state) (IntId 5) = Inr forum_entity \<and>
           e_forum forum_entity"
    by (simp add: plain_client_def forum_entity_def)
  have a: "fst (extract_topic_id plain_client \<lparr>ev_chat_id = IntId 5, ev_message = amy_msg\<rparr>
                  initial_state) = Some 1"
    using extract_topic_id_branches
      [of plain_client initial_state "\<lparr>ev_chat_id = IntId 5, ev_message = amy_msg\<rparr>"
          OtherError forum_entity None ?r1] f
    by (simp add: amy_msg_def)
  have b: "fst (extract_topic_id plain_client \<lparr>ev_chat_id = IntId 5, ev_message = topic_reply_msg\<rparr>
                  initial_state) = Some 40"
    using extract_topic_id_branches
      [of plain_client initial_state "\<lparr>ev_chat_id = IntId 5, ev_message = topic_reply_msg\<rparr>"
          OtherError forum_entity None ?r1] f
    by (simp add: topic_reply_msg_def amy_msg_def)
  have c: "fst (extract_topic_id plain_client \<lparr>ev_chat_id = IntId 5, ev_message = first_reply_msg\<rparr>
                  initial_state) = Some 77"
    using extract_topic_id_branches
      [of plain_client initial_state "\<lparr>ev_chat_id = IntId 5, ev_message = first_reply_msg\<rparr>"
          OtherError forum_entity None ?r2] f
    by (simp add: first_reply_msg_def amy_msg_def)
  have d: "fst (extract_topic_id plain_client
          \<lparr>ev_chat_id = IntId 5, ev_message = amy_msg\<lparr>m_topic := Some (Some 8)\<rparr>\<rparr>
          initial_state) = Some 8"
    using extract_topic_id_branches
      [of plain_client initial_state
          "\<lparr>ev_chat_id = IntId 5, ev_message = amy_msg\<lparr>m_topic := Some (Some 8)\<rparr>\<rparr>"
          OtherError forum_entity "Some 8" ?r1] f
    by (simp add: amy_msg_def)
  have e: "fst (extract_topic_id plain_client
          \<lparr>ev_chat_id = IntId 5, ev_message = amy_msg\<lparr>m_id := 9, m_post := True\<rparr>\<rparr>
          initial_state) = Some 9"
    using extract_topic_id_branches
      [of plain_client initial_state
          "\<lparr>ev_chat_id = IntId 5, ev_message = amy_msg\<lparr>m_id := 9, m_post := True\<rparr>\<rparr>"
          OtherError forum_entity None ?r1] f
    by (simp add: amy_msg_def)
  have g: "fst (extract_topic_id (plain_client\<lparr>cl_get_entity := \<lambda>t c. Inl OtherError\<rparr>)
          \<lparr>ev_chat_id = IntId 5, ev_message = amy_msg\<rparr> initial_state) = None"
    using extract_topic_id_branches
      [of "plain_client\<lparr>cl_get_entity := \<lambda>t c. Inl OtherError\<rparr>" initial_state
          "\<lparr>ev_chat_id = IntId 5, ev_message = amy_msg\<rparr>" OtherError forum_entity None ?r1]
    by simp
  have h: "fst (extract_topic_id (plain_client\<lparr>cl_get_entity := \<lambda>t c. Inr (forum_entity\<lparr>e_forum := False\<rparr>)\<rparr>)
          \<lparr>ev_chat_id = IntId 5, ev_message = amy_msg\<rparr> initial_state) = None"
    using extract_topic_id_branches
      [of "plain_client\<lparr>cl_get_entity := \<lambda>t c. Inr (forum_entity\<lparr>e_forum := False\<rparr>)\<rparr>" initial_state
          "\<lparr>ev_chat_id = IntId 5, ev_message = amy_msg\<rparr>" OtherError
          "forum_entity\<lparr>e_forum := False\<rparr>" None ?r1]
    by simp
  from a b c d e g h show ?thesis by simp
qed

lemma get_topic_name_truthy:
  "t \<noteq> 0 \<Longrightarrow> \<exists>name. fst (get_topic_name cl chat_id (Some t) s) = Some name"
  by (simp add: get_topic_name_def Let_def split: option.splits prod.splits)

text \<open>
  Claim C10. Called with a falsy topic id (\<^verbatim>\<open>None\<close> or 0), \<open>get_topic_name\<close> returns
  \<^verbatim>\<open>None\<close> and leaves the state as it was: no request is sent and nothing is cached, so no
  \<^verbatim>\<open>Topic {id}\<close> fallback is produced. For every other topic id it returns a string.
\<close>

theorem get_topic_name_falsy:
  "(topic_id = None \<or> topic_id = Some 0 \<longrightarrow> get_topic_name cl chat_id topic_id s = (None, s)) \<and>
   (\<forall>t. topic_id = Some t \<and> t \<noteq> 0 \<longrightarrow> (\<exists>name. fst (get_topic_name cl chat_id topic_id s) = Some name))"
  using get_topic_name_truthy by (auto simp: get_topic_name_def)

theorem get_topic_name_falsy_witness:
  "get_topic_name plain_client (IntId 5) (Some 0) initial_state = (None, initial_state) \<and>
   (\<exists>name. fst (get_topic_name plain_client (IntId 5) (Some 7) initial_state) = Some name)"
  using get_topic_name_falsy [of "Some 0" plain_client "IntId 5" initial_state]
        get_topic_name_falsy [of "Some 7" plain_client "IntId 5" initial_state]
  by simp

section \<open>Lookups leave the no-forward set alone\<close>

lemma lookup_only_refl [simp]: "lookup_only s s"
  by (simp add: lookup_only_def)

lemma lookup_only_trans: "lookup_only s s1 \<Longrightarrow> lookup_only s1 s2 \<Longrightarrow> lookup_only s s2"
  unfolding lookup_only_def by (metis UnE append.assoc set_append)

lemma lookup_only_request: "is_lookup c \<Longrightarrow> lookup_only s (request c s)"
  by (simp add: lookup_only_def request_def)

lemma lookup_only_upd [simp]:
  "lookup_only s (s'\<lparr>chat_entities := ce\<rparr>) = lookup_only s s'"
  "lookup_only s (s'\<lparr>chat_topics := ct\<rparr>) = lookup_only s s'"
  "lookup_only s (s'\<lparr>resolved_message_links := rl\<rparr>) = lookup_only s s'"
  "lookup_only (s\<lparr>chat_entities := ce\<rparr>) s' = lookup_only s s'"
  "lookup_only (s\<lparr>chat_topics := ct\<rparr>) s' = lookup_only s s'"
  "lookup_only (s\<lparr>resolved_message_links := rl\<rparr>) s' = lookup_only s s'"
  by (simp_all add: lookup_only_def)

lemma lookup_only_lookup_entity: "lookup_entity cl chat_id s = (r, s') \<Longrightarrow> lookup_only s s'"
  by (auto simp: lookup_entity_def lookup_only_request split: if_splits)

lemma lookup_only_get_entity: "get_entity cl chat_id s = (r, s') \<Longrightarrow> lookup_only s s'"
  by (auto simp: get_entity_def split: option.splits prod.splits sum.splits
           dest: lookup_only_lookup_entity)

lemma lookup_only_get_chat_title: "get_chat_title cl chat_id s = (r, s') \<Longrightarrow> lookup_only s s'"
  by (auto simp: get_chat_title_def split: option.splits prod.splits
           dest: lookup_only_get_entity)

lemma lookup_only_set_topic [simp]: "lookup_only s (set_topic c i n s') = lookup_only s s'"
  by (simp add: set_topic_def)

lemma lookup_only_set_topic2 [simp]: "lookup_only (set_topic c i n s) s' = lookup_only s s'"
  by (simp add: set_topic_def)

lemma lookup_only_store_topics: "store_topics c ts s = (r, s') \<Longrightarrow> lookup_only s s'"
  by (induction c ts s rule: store_topics.induct) auto

lemma lookup_only_full_channel:
  "topic_from_full_channel cl c t e s = (r, s') \<Longrightarrow> lookup_only s s'"
  by (auto simp: topic_from_full_channel_def Let_def lookup_only_request
           split: option.splits sum.splits prod.splits if_splits
           dest!: lookup_only_store_topics)
     (metis lookup_only_trans lookup_only_request is_lookup.simps(7))+

lemma lookup_only_topic_message:
  "topic_from_message cl c t e s = (r, s') \<Longrightarrow> lookup_only s s'"
  by (auto simp: topic_from_message_def Let_def lookup_only_request
           split: sum.splits list.splits if_splits)

lemma lookup_only_discussion:
  "topic_from_discussion cl c t e s = (r, s') \<Longrightarrow> lookup_only s s'"
  by (auto simp: topic_from_discussion_def Let_def lookup_only_request
           split: sum.splits option.splits)

lemma lookup_only_get_topic_name:
  "get_topic_name cl c t s = (r, s') \<Longrightarrow> lookup_only s s'"
  by (auto simp: get_topic_name_def Let_def
           split: option.splits prod.splits if_splits
           dest!: lookup_only_get_entity lookup_only_full_channel lookup_only_topic_message
                  lookup_only_discussion)
     (blast intro: lookup_only_trans)+

lemma lookup_only_fetch_standard:
  "fetch_standard cl chat i s = (r, s') \<Longrightarrow> lookup_only s s'"
  by (auto simp: fetch_standard_def Let_def lookup_only_request split: sum.splits)

lemma lookup_only_fetch_in_topic:
  "fetch_in_topic cl chat i t m s = (r, s') \<Longrightarrow> lookup_only s s'"
  by (auto simp: fetch_in_topic_def Let_def lookup_only_request
           split: sum.splits option.splits if_splits)

lemma lookup_only_fetch_raw:
  "fetch_raw cl chat i m s = (r, s') \<Longrightarrow> lookup_only s s'"
  by (auto simp: fetch_raw_def Let_def lookup_only_request
           split: sum.splits option.splits list.splits if_splits)

lemma lookup_only_resolve_link_chat:
  "resolve_link_chat cl ld s = (r, s') \<Longrightarrow> lookup_only s s'"
  by (auto simp: resolve_link_chat_def Let_def split: option.splits prod.splits
           dest: lookup_only_get_entity)

lemma lookup_only_fetch_linked_message:
  "fetch_linked_message cl ld s = (r, s') \<Longrightarrow> lookup_only s s'"
  by (auto simp: fetch_linked_message_def Let_def
           split: option.splits prod.splits sum.splits
           dest!: lookup_only_resolve_link_chat lookup_only_fetch_standard
                  lookup_only_fetch_in_topic lookup_only_fetch_raw)
     (blast intro: lookup_only_trans)+

lemma lookup_only_process_replied_message:
  "process_replied_message cl m c s = (r, s') \<Longrightarrow> lookup_only s s'"
  by (auto simp: process_replied_message_def Let_def lookup_only_request
           split: option.splits sum.splits)

lemma lookup_only_add_linked:
  "add_linked cl lds acc s = (r, s') \<Longrightarrow> lookup_only s s'"
proof (induction lds arbitrary: acc s)
  case Nil
  then show ?case by simp
next
  case (Cons ld lds)
  obtain m s1 where f: "fetch_linked_message cl ld s = (m, s1)"
    by (cases "fetch_linked_message cl ld s")
  then have a: "lookup_only s s1"
    by (rule lookup_only_fetch_linked_message)
  from Cons.prems f have "\<exists>acc'. add_linked cl lds acc' s1 = (r, s')"
    by (auto split: option.splits)
  then have "lookup_only s1 s'"
    using Cons.IH by blast
  with a show ?case by (rule lookup_only_trans)
qed

lemma lookup_only_extract_topic_id:
  "extract_topic_id cl ev s = (r, s') \<Longrightarrow> lookup_only s s'"
  by (auto simp: extract_topic_id_def extract_topic_id_try_def Let_def lookup_only_request
           split: sum.splits option.splits prod.splits if_splits)

lemma lookup_only_decide:
  "decide rules cl ev s = (r, s') \<Longrightarrow> lookup_only s s'"
  by (auto simp: decide_def Let_def split: prod.splits dest: lookup_only_extract_topic_id)

section \<open>Properties of multi-target delivery\<close>

lemma lookup_onlyD:
  "lookup_only s s' \<Longrightarrow>
   no_forward_chats s' = no_forward_chats s \<and>
   (\<exists>seg. calls s' = calls s @ seg \<and> (\<forall>c \<in> set seg. is_lookup c))"
  by (simp add: lookup_only_def)

lemma is_lookup_not_native: "is_lookup c \<Longrightarrow> \<not> is_native c"
  by (cases c) simp_all

lemma send_additional_calls:
  "no_forward_chats (send_additional cl c t mds s) = no_forward_chats s \<and>
   (\<exists>seg. calls (send_additional cl c t mds s) = calls s @ seg \<and> (\<forall>x \<in> set seg. \<not> is_native x))"
proof (induction mds arbitrary: s)
  case Nil
  then show ?case by simp
next
  case (Cons md mds)
  let ?s1 = "request (CallSendMedia c t md) s"
  from Cons.IH [of ?s1] obtain seg where
    n: "no_forward_chats (send_additional cl c t mds ?s1) = no_forward_chats ?s1" and
    c: "calls (send_additional cl c t mds ?s1) = calls ?s1 @ seg" and
    f: "\<forall>x \<in> set seg. \<not> is_native x"
    by blast
  have e: "send_additional cl c t (md # mds) s = send_additional cl c t mds ?s1"
    by (simp split: sum.splits)
  have "calls (send_additional cl c t (md # mds) s) = calls s @ (CallSendMedia c t md # seg)"
    using c e by (simp add: request_def)
  moreover have "\<forall>x \<in> set (CallSendMedia c t md # seg). \<not> is_native x"
    using f by simp
  moreover have "no_forward_chats (send_additional cl c t (md # mds) s) = no_forward_chats s"
    using n e by (simp add: request_def)
  ultimately show ?case by blast
qed

lemma lookup_only_source_header:
  "source_header cl c t s = (r, s') \<Longrightarrow> lookup_only s s'"
  by (auto simp: source_header_def Let_def split: prod.splits if_splits
           dest!: lookup_only_get_chat_title lookup_only_get_topic_name)
     (blast intro: lookup_only_trans)+

lemma send_reconstructed_calls:
  "no_forward_chats (send_reconstructed cl ev mc topic tg s) = no_forward_chats s \<and>
   (\<exists>seg. calls (send_reconstructed cl ev mc topic tg s) = calls s @ seg \<and>
          (\<exists>c \<in> set seg. is_send_to tg c) \<and> (\<forall>c \<in> set seg. \<not> is_native c))"
proof -
  obtain source_info s2 where h: "source_header cl (ev_chat_id ev) topic s = (source_info, s2)"
    by (cases "source_header cl (ev_chat_id ev) topic s")
  obtain content_text sendable additional where
    p: "prepare_forwarding_content (ev_message ev) source_info (include_source tg) mc =
          (content_text, sendable, additional)"
    by (rule prod_cases3)
  let ?c = "CallSend (to_chat tg) content_text (to_topic tg) sendable"
  let ?s3 = "request ?c s2"
  from lookup_onlyD [OF lookup_only_source_header [OF h]] obtain seg1 where
    n1: "no_forward_chats s2 = no_forward_chats s" and
    c1: "calls s2 = calls s @ seg1" and l1: "\<forall>c \<in> set seg1. is_lookup c"
    by blast
  from send_additional_calls [of cl "to_chat tg" "to_topic tg" additional ?s3] obtain seg2 where
    n2: "no_forward_chats (send_additional cl (to_chat tg) (to_topic tg) additional ?s3) =
           no_forward_chats ?s3" and
    c2: "calls (send_additional cl (to_chat tg) (to_topic tg) additional ?s3) = calls ?s3 @ seg2" and
    l2: "\<forall>x \<in> set seg2. \<not> is_native x"
    by blast
  have s: "is_send_to tg ?c" by (simp add: is_send_to_def)
  have nn: "\<forall>c \<in> set seg1. \<not> is_native c" using l1 is_lookup_not_native by blast
  have r: "send_reconstructed cl ev mc topic tg s = ?s3 \<or>
           send_reconstructed cl ev mc topic tg s =
             send_additional cl (to_chat tg) (to_topic tg) additional ?s3"
    by (simp add: send_reconstructed_def h p Let_def split: sum.splits)
  then show ?thesis
  proof
    assume e: "send_reconstructed cl ev mc topic tg s = ?s3"
    have "calls ?s3 = calls s @ (seg1 @ [?c])" by (simp add: request_def c1)
    moreover have "\<exists>c \<in> set (seg1 @ [?c]). is_send_to tg c" using s by simp
    moreover have "\<forall>c \<in> set (seg1 @ [?c]). \<not> is_native c" using nn by simp
    moreover have "no_forward_chats ?s3 = no_forward_chats s" by (simp add: request_def n1)
    ultimately show ?thesis unfolding e by blast
  next
    assume e: "send_reconstructed cl ev mc topic tg s =
             send_additional cl (to_chat tg) (to_topic tg) additional ?s3"
    have "calls (send_additional cl (to_chat tg) (to_topic tg) additional ?s3) =
            calls s @ (seg1 @ ?c # seg2)"
      unfolding c2 by (simp add: request_def c1)
    moreover have "\<exists>c \<in> set (seg1 @ ?c # seg2). is_send_to tg c" using s by simp
    moreover have "\<forall>c \<in> set (seg1 @ ?c # seg2). \<not> is_native c" using nn l2 by auto
    moreover have "no_forward_chats (send_additional cl (to_chat tg) (to_topic tg) additional ?s3) =
            no_forward_chats s"
      unfolding n2 by (simp add: request_def n1)
    ultimately show ?thesis unfolding e by blast
  qed
qed

lemma try_direct_forward_calls:
  "try_direct_forward cl chat_id msg c t s = (fin, s') \<Longrightarrow>
   no_forward_chats s \<subseteq> no_forward_chats s' \<and>
   (\<exists>seg. calls s' = calls s @ CallForward c # seg)"
  by (auto simp: try_direct_forward_def Let_def request_def split: sum.splits if_splits)

lemma try_direct_forward_flip:
  "cl_forward cl (now s) c msg = Inl e \<Longrightarrow> is_restriction e \<Longrightarrow>
   try_direct_forward cl chat_id msg c t s = (fin, s') \<Longrightarrow> \<not> fin \<and> chat_id \<in> no_forward_chats s'"
  by (auto simp: try_direct_forward_def Let_def)

lemma forward_one_grows:
  "no_forward_chats s \<subseteq> no_forward_chats (forward_one cl ev mc topic cfd tg s) \<and>
   (\<exists>seg. calls (forward_one cl ev mc topic cfd tg s) = calls s @ seg \<and>
          (\<exists>c \<in> set seg. is_delivery_to tg c))"
proof (cases "cfd \<and> mc = []")
  case False
  then have e: "forward_one cl ev mc topic cfd tg s = send_reconstructed cl ev mc topic tg s"
    by (auto simp: forward_one_def)
  from send_reconstructed_calls [of cl ev mc topic tg s] obtain seg where
    "no_forward_chats (send_reconstructed cl ev mc topic tg s) = no_forward_chats s"
    "calls (send_reconstructed cl ev mc topic tg s) = calls s @ seg"
    "\<exists>c \<in> set seg. is_send_to tg c"
    by blast
  then show ?thesis
    unfolding e is_delivery_to_def by blast
next
  case True
  obtain fin s1 where
    t: "try_direct_forward cl (ev_chat_id ev) (ev_message ev) (to_chat tg) (to_topic tg) s = (fin, s1)"
    by (cases "try_direct_forward cl (ev_chat_id ev) (ev_message ev) (to_chat tg) (to_topic tg) s")
  from try_direct_forward_calls [OF t] obtain seg where
    n: "no_forward_chats s \<subseteq> no_forward_chats s1" and
    c: "calls s1 = calls s @ CallForward (to_chat tg) # seg"
    by blast
  show ?thesis
  proof (cases fin)
    case True
    with \<open>cfd \<and> mc = []\<close> t have e: "forward_one cl ev mc topic cfd tg s = s1"
      by (simp add: forward_one_def)
    have "\<exists>x \<in> set (CallForward (to_chat tg) # seg). is_delivery_to tg x"
      by (simp add: is_delivery_to_def)
    with n c show ?thesis unfolding e by blast
  next
    case False
    with \<open>cfd \<and> mc = []\<close> t have e:
      "forward_one cl ev mc topic cfd tg s = send_reconstructed cl ev mc topic tg s1"
      by (simp add: forward_one_def)
    from send_reconstructed_calls [of cl ev mc topic tg s1] obtain seg2 where
      n2: "no_forward_chats (send_reconstructed cl ev mc topic tg s1) = no_forward_chats s1" and
      c2: "calls (send_reconstructed cl ev mc topic tg s1) = calls s1 @ seg2"
      by blast
    have "calls (send_reconstructed cl ev mc topic tg s1) =
            calls s @ (CallForward (to_chat tg) # seg @ seg2)"
      using c c2 by simp
    moreover have "\<exists>x \<in> set (CallForward (to_chat tg) # seg @ seg2). is_delivery_to tg x"
      by (simp add: is_delivery_to_def)
    ultimately show ?thesis unfolding e using n n2 by blast
  qed
qed

text \<open>
  Claim C9. During the delivery of one message to a list of targets, whatever the transport
  answers (any request may raise), the requests sent are one segment per target, in the
  order of the targets, and the segment of every target holds a delivery attempt addressed
  to it: the native forward or the send of the text-based path. A failure at one target
  never keeps the following targets from being attempted.
\<close>

theorem forward_message_attempts_all:
  "\<exists>segs. calls (forward_message cl ev mc topic cfd targets s) = calls s @ concat segs \<and>
          list_all2 (\<lambda>tg seg. \<exists>c \<in> set seg. is_delivery_to tg c) targets segs"
proof (induction targets arbitrary: s)
  case Nil
  have "calls (forward_message cl ev mc topic cfd [] s) = calls s @ concat [] \<and>
        list_all2 (\<lambda>tg seg. \<exists>c \<in> set seg. is_delivery_to tg c) [] []"
    by simp
  then show ?case by blast
next
  case (Cons tg targets)
  let ?s1 = "forward_one cl ev mc topic cfd tg s"
  from forward_one_grows [of s cl ev mc topic cfd tg] obtain seg where
    c: "calls ?s1 = calls s @ seg" and d: "\<exists>c \<in> set seg. is_delivery_to tg c"
    by blast
  from Cons.IH [of ?s1] obtain segs where
    cs: "calls (forward_message cl ev mc topic cfd targets ?s1) = calls ?s1 @ concat segs" and
    ds: "list_all2 (\<lambda>tg seg. \<exists>c \<in> set seg. is_delivery_to tg c) targets segs"
    by blast
  have "calls (forward_message cl ev mc topic cfd (tg # targets) s) = calls s @ concat (seg # segs)"
    using c cs by simp
  moreover have "list_all2 (\<lambda>tg seg. \<exists>c \<in> set seg. is_delivery_to tg c) (tg # targets) (seg # segs)"
    using d ds by simp
  ultimately show ?case by blast
qed

text \<open>A run in which every request raises: both targets are still attempted.\<close>

lemma failing_run:
  "calls (forward_message failing_client ev5 [] None True [tgA, tgB] initial_state) =
     [CallForward ''100'', CallGetEntityInt (IntId 5),
      CallSend ''100'' (mail_mark @ '' Forwarded from: Chat 5\<newline>\<newline>hi'') None None,
      CallForward ''200'', CallGetEntityInt (IntId 5),
      CallSend ''200'' (mail_mark @ '' Forwarded from: Chat 5\<newline>\<newline>hi'') None None]"
  by (simp add: forward_one_def try_direct_forward_def send_reconstructed_def source_header_def
        get_chat_title_def get_entity_def lookup_entity_def failing_client_def ev5_def tgA_def
        tgB_def initial_state_def now_def request_def is_restriction_def truthy_id_def
        prepare_forwarding_content_def extract_message_text_def amy_msg_def truthy_def str_of_def
        chat_fallback_title_def py_str_def str_int_def str_nat.simps digit_char_def startswith_def
        Let_def)

theorem forward_message_attempts_all_witness:
  "(\<exists>segs. calls (forward_message failing_client ev5 [] None True [tgA, tgB] initial_state) =
            calls initial_state @ concat segs \<and>
          list_all2 (\<lambda>tg seg. \<exists>c \<in> set seg. is_delivery_to tg c) [tgA, tgB] segs) \<and>
   filter (\<lambda>c. is_delivery_to tgB c)
     (calls (forward_message failing_client ev5 [] None True [tgA, tgB] initial_state)) =
     [CallForward ''200'',
      CallSend ''200'' (mail_mark @ '' Forwarded from: Chat 5\<newline>\<newline>hi'') None None]"
proof -
  have a: "\<exists>segs. calls (forward_message failing_client ev5 [] None True [tgA, tgB] initial_state) =
            calls initial_state @ concat segs \<and>
          list_all2 (\<lambda>tg seg. \<exists>c \<in> set seg. is_delivery_to tg c) [tgA, tgB] segs"
    by (rule forward_message_attempts_all)
  have b: "filter (\<lambda>c. is_delivery_to tgB c)
     (calls (forward_message failing_client ev5 [] None True [tgA, tgB] initial_state)) =
     [CallForward ''200'',
      CallSend ''200'' (mail_mark @ '' Forwarded from: Chat 5\<newline>\<newline>hi'') None None]"
    unfolding failing_run by (simp add: is_delivery_to_def is_send_to_def tgB_def)
  from a b show ?thesis by (rule conjI)
qed

section \<open>The forwarding-denied state\<close>

lemma forward_message_append:
  "forward_message cl ev mc topic cfd (xs @ ys) s =
     forward_message cl ev mc topic cfd ys (forward_message cl ev mc topic cfd xs s)"
  by (induction xs arbitrary: s) simp_all

lemma forward_message_mono:
  "no_forward_chats s \<subseteq> no_forward_chats (forward_message cl ev mc topic cfd targets s)"
proof (induction targets arbitrary: s)
  case Nil
  show ?case by simp
next
  case (Cons tg targets)
  have "no_forward_chats s \<subseteq> no_forward_chats (forward_one cl ev mc topic cfd tg s)"
    using forward_one_grows [of s cl ev mc topic cfd tg] by blast
  also have "\<dots> \<subseteq> no_forward_chats
      (forward_message cl ev mc topic cfd targets (forward_one cl ev mc topic cfd tg s))"
    by (rule Cons.IH)
  finally show ?case by simp
qed

lemma forward_one_flip:
  assumes "cl_forward cl (now s) (to_chat tg) (ev_message ev) = Inl e" and "is_restriction e"
  shows "ev_chat_id ev \<in> no_forward_chats (forward_one cl ev [] topic True tg s)"
proof -
  obtain fin s1 where
    t: "try_direct_forward cl (ev_chat_id ev) (ev_message ev) (to_chat tg) (to_topic tg) s = (fin, s1)"
    by (cases "try_direct_forward cl (ev_chat_id ev) (ev_message ev) (to_chat tg) (to_topic tg) s")
  from try_direct_forward_flip [OF assms t] have f: "\<not> fin" and m: "ev_chat_id ev \<in> no_forward_chats s1"
    by simp_all
  have "forward_one cl ev [] topic True tg s = send_reconstructed cl ev [] topic tg s1"
    using t f by (simp add: forward_one_def)
  then show ?thesis
    using m send_reconstructed_calls [of cl ev "[]" topic tg s1] by simp
qed

lemma forward_message_flip:
  assumes "cl_forward cl (now (forward_message cl ev [] topic True pre s)) (to_chat tg) (ev_message ev) = Inl e"
    and "is_restriction e"
  shows "ev_chat_id ev \<in> no_forward_chats (forward_message cl ev [] topic True (pre @ tg # post) s)"
proof -
  let ?s1 = "forward_message cl ev [] topic True pre s"
  have "ev_chat_id ev \<in> no_forward_chats (forward_one cl ev [] topic True tg ?s1)"
    using assms by (rule forward_one_flip)
  then have "ev_chat_id ev \<in> no_forward_chats
      (forward_message cl ev [] topic True post (forward_one cl ev [] topic True tg ?s1))"
    using forward_message_mono by blast
  then show ?thesis by (simp add: forward_message_append)
qed

lemma can_forward_from_chat_mono:
  "can_forward_from_chat cl c s = (r, s') \<Longrightarrow> no_forward_chats s \<subseteq> no_forward_chats s'"
  by (auto simp: can_forward_from_chat_def Let_def split: if_splits prod.splits option.splits
           dest!: lookup_only_get_entity lookup_onlyD)

lemma can_forward_from_chat_denied:
  "c \<in> no_forward_chats s \<Longrightarrow> can_forward_from_chat cl c s = (False, s)"
  by (simp add: can_forward_from_chat_def)

text \<open>The enrichment before the targets are served: the reply and the linked messages.\<close>

lemma process_and_forward_message_split:
  "\<exists>mc s2. lookup_only s s2 \<and>
     process_and_forward_message cl xl ev info topic cfd s =
       forward_message cl ev mc topic cfd info s2"
proof -
  obtain ac s1 where a: "reply_content cl (ev_message ev) (ev_chat_id ev) topic s = (ac, s1)"
    by (rule prod.exhaust)
  then have l1: "lookup_only s s1"
    by (auto simp: reply_content_def Let_def split: if_splits prod.splits option.splits
             dest: lookup_only_process_replied_message)
  obtain mc s2 where b:
    "add_linked cl (if truthy (m_text (ev_message ev)) then xl (str_of (m_text (ev_message ev))) else [])
        ac s1 = (mc, s2)"
    by (rule prod.exhaust)
  then have l2: "lookup_only s1 s2"
    by (rule lookup_only_add_linked)
  have "process_and_forward_message cl xl ev info topic cfd s =
          forward_message cl ev mc topic cfd info s2"
    by (simp add: process_and_forward_message_def Let_def a b)
  with lookup_only_trans [OF l1 l2] show ?thesis by blast
qed

lemma process_and_forward_message_mono:
  "no_forward_chats s \<subseteq> no_forward_chats (process_and_forward_message cl xl ev info topic cfd s)"
proof -
  from process_and_forward_message_split [of s cl xl ev info topic cfd] obtain mc s2 where
    l: "lookup_only s s2" and
    e: "process_and_forward_message cl xl ev info topic cfd s = forward_message cl ev mc topic cfd info s2"
    by blast
  from l have "no_forward_chats s2 = no_forward_chats s" by (simp add: lookup_only_def)
  then show ?thesis
    unfolding e using forward_message_mono [of s2 cl ev mc topic cfd info] by simp
qed

lemma handle_new_message_mono:
  "no_forward_chats s \<subseteq> no_forward_chats (handle_new_message rules cl xl ev s)"
proof -
  obtain ev1 topic info s1 where d: "decide rules cl ev s = ((ev1, topic, info), s1)"
    by (metis prod.exhaust)
  from lookup_only_decide [OF d] have n1: "no_forward_chats s1 = no_forward_chats s"
    by (simp add: lookup_only_def)
  show ?thesis
  proof (cases "info = []")
    case True
    then show ?thesis using d n1 by (simp add: handle_new_message_def)
  next
    case False
    obtain cf s2 where c: "can_forward_from_chat cl (ev_chat_id ev) s1 = (cf, s2)"
      by (rule prod.exhaust)
    have e: "handle_new_message rules cl xl ev s =
               process_and_forward_message cl xl ev1 info topic cf s2"
      using d c False by (simp add: handle_new_message_def)
    show ?thesis
      unfolding e
      using can_forward_from_chat_mono [OF c] n1
            process_and_forward_message_mono [of s2 cl xl ev1 info topic cf]
      by blast
  qed
qed

lemma step_mono: "no_forward_chats s \<subseteq> no_forward_chats (step rules xl operation s)"
proof (cases operation)
  case (OpNewMessage cl ev)
  then show ?thesis using handle_new_message_mono by simp
next
  case (OpGetEntity cl c)
  then show ?thesis
    using lookup_only_get_entity [of cl c s] by (cases "get_entity cl c s") (simp add: lookup_only_def)
next
  case (OpCanForward cl c)
  then show ?thesis
    using can_forward_from_chat_mono [of cl c s] by (cases "can_forward_from_chat cl c s") simp
next
  case (OpFetchLinked cl ld)
  then show ?thesis
    using lookup_only_fetch_linked_message [of cl ld s]
    by (cases "fetch_linked_message cl ld s") (simp add: lookup_only_def)
qed

lemma run_mono: "no_forward_chats s \<subseteq> no_forward_chats (run rules xl ops s)"
proof (induction ops arbitrary: s)
  case Nil
  show ?case by simp
next
  case (Cons operation ops)
  have "no_forward_chats s \<subseteq> no_forward_chats (step rules xl operation s)"
    by (rule step_mono)
  also have "\<dots> \<subseteq> no_forward_chats (run rules xl ops (step rules xl operation s))"
    by (rule Cons.IH)
  finally show ?case by simp
qed

lemma forward_message_denied:
  "\<exists>segs. calls (forward_message cl ev mc topic False targets s) = calls s @ concat segs \<and>
          list_all2 reconstructed_for targets segs"
proof (induction targets arbitrary: s)
  case Nil
  have "calls (forward_message cl ev mc topic False [] s) = calls s @ concat [] \<and>
        list_all2 reconstructed_for [] []"
    by simp
  then show ?case by blast
next
  case (Cons tg targets)
  let ?s1 = "forward_one cl ev mc topic False tg s"
  have e: "?s1 = send_reconstructed cl ev mc topic tg s"
    by (simp add: forward_one_def)
  from send_reconstructed_calls [of cl ev mc topic tg s] obtain seg where
    c: "calls ?s1 = calls s @ seg" and d: "reconstructed_for tg seg"
    unfolding e reconstructed_for_def by blast
  from Cons.IH [of ?s1] obtain segs where
    cs: "calls (forward_message cl ev mc topic False targets ?s1) = calls ?s1 @ concat segs" and
    ds: "list_all2 reconstructed_for targets segs"
    by blast
  have "calls (forward_message cl ev mc topic False (tg # targets) s) = calls s @ concat (seg # segs)"
    using c cs by simp
  moreover have "list_all2 reconstructed_for (tg # targets) (seg # segs)"
    using d ds by simp
  ultimately show ?case by blast
qed

lemma handle_new_message_denied:
  assumes "ev_chat_id ev \<in> no_forward_chats s"
  shows "\<exists>s3 segs. lookup_only s s3 \<and>
           calls (handle_new_message rules cl xl ev s) = calls s3 @ concat segs \<and>
           list_all2 reconstructed_for (snd (snd (fst (decide rules cl ev s)))) segs"
proof -
  obtain ev1 topic info s1 where d: "decide rules cl ev s = ((ev1, topic, info), s1)"
    by (metis prod.exhaust)
  have l1: "lookup_only s s1" using d by (rule lookup_only_decide)
  then have "ev_chat_id ev \<in> no_forward_chats s1"
    using assms by (simp add: lookup_only_def)
  then have c: "can_forward_from_chat cl (ev_chat_id ev) s1 = (False, s1)"
    by (rule can_forward_from_chat_denied)
  show ?thesis
  proof (cases "info = []")
    case True
    then have "calls (handle_new_message rules cl xl ev s) = calls s1 @ concat [] \<and>
               list_all2 reconstructed_for (snd (snd (fst (decide rules cl ev s)))) []"
      using d by (simp add: handle_new_message_def)
    with l1 show ?thesis by blast
  next
    case False
    have e: "handle_new_message rules cl xl ev s =
               process_and_forward_message cl xl ev1 info topic False s1"
      using d c False by (simp add: handle_new_message_def)
    from process_and_forward_message_split [of s1 cl xl ev1 info topic False] obtain mc s2 where
      l2: "lookup_only s1 s2" and
      p: "process_and_forward_message cl xl ev1 info topic False s1 =
            forward_message cl ev1 mc topic False info s2"
      by blast
    from forward_message_denied [of cl ev1 mc topic info s2] obtain segs where
      "calls (forward_message cl ev1 mc topic False info s2) = calls s2 @ concat segs"
      "list_all2 reconstructed_for info segs"
      by blast
    then have "calls (handle_new_message rules cl xl ev s) = calls s2 @ concat segs \<and>
               list_all2 reconstructed_for (snd (snd (fst (decide rules cl ev s)))) segs"
      using e p d by simp
    with lookup_only_trans [OF l1 l2] show ?thesis by blast
  qed
qed

text \<open>
  Claim C4. When the native forward of a message from chat X to some target fails with a
  forwarding-restriction error, X is in the no-forward set when that message has been
  handled, and it stays there through any later run of operations. For every later message
  from X, \<open>can_forward_from_chat\<close> answers false without a lookup, and the handler sends
  lookups only and then, for each target of the decision, a segment of requests without
  any native forward or edit and with the send of the text-based path.
\<close>

theorem forwarding_denied_is_sticky:
  assumes "cl_forward cl (now (forward_message cl ev [] topic True pre s0)) (to_chat tg) (ev_message ev)
             = Inl e"
    and "is_restriction e"
    and "ev_chat_id ev' = ev_chat_id ev"
  shows "ev_chat_id ev \<in> no_forward_chats (forward_message cl ev [] topic True (pre @ tg # post) s0) \<and>
    (let s2 = run rules xl ops (forward_message cl ev [] topic True (pre @ tg # post) s0)
     in ev_chat_id ev \<in> no_forward_chats s2 \<and>
        can_forward_from_chat cl' (ev_chat_id ev) s2 = (False, s2) \<and>
        (\<exists>s3 segs. lookup_only s2 s3 \<and>
           calls (handle_new_message rules cl' xl ev' s2) = calls s3 @ concat segs \<and>
           list_all2 reconstructed_for (snd (snd (fst (decide rules cl' ev' s2)))) segs))"
proof -
  let ?s1 = "forward_message cl ev [] topic True (pre @ tg # post) s0"
  let ?s2 = "run rules xl ops ?s1"
  have a: "ev_chat_id ev \<in> no_forward_chats ?s1"
    using assms(1,2) by (rule forward_message_flip)
  then have b: "ev_chat_id ev \<in> no_forward_chats ?s2"
    using run_mono [of ?s1 rules xl ops] by blast
  have c: "can_forward_from_chat cl' (ev_chat_id ev) ?s2 = (False, ?s2)"
    using b by (rule can_forward_from_chat_denied)
  have "ev_chat_id ev' \<in> no_forward_chats ?s2"
    using b assms(3) by simp
  then have d: "\<exists>s3 segs. lookup_only ?s2 s3 \<and>
           calls (handle_new_message rules cl' xl ev' ?s2) = calls s3 @ concat segs \<and>
           list_all2 reconstructed_for (snd (snd (fst (decide rules cl' ev' ?s2)))) segs"
    by (rule handle_new_message_denied)
  show ?thesis
    unfolding Let_def using a b c d by blast
qed

theorem forwarding_denied_is_sticky_witness:
  "IntId 5 \<in> no_forward_chats (forward_message plain_client ev5 [] None True [tgA] initial_state) \<and>
   can_forward_from_chat failing_client (IntId 5)
     (forward_message plain_client ev5 [] None True [tgA] initial_state) =
     (False, forward_message plain_client ev5 [] None True [tgA] initial_state)"
proof -
  have h1: "cl_forward plain_client (now (forward_message plain_client ev5 [] None True [] initial_state))
              (to_chat tgA) (ev_message ev5) = Inl ForbiddenError"
    by (simp add: plain_client_def)
  have h2: "is_restriction ForbiddenError"
    by (simp add: is_restriction_def)
  have h3: "ev_chat_id ev5 = ev_chat_id ev5" by simp
  from forwarding_denied_is_sticky [OF h1 h2 h3, of "[]" Map.empty "\<lambda>t. []" "[]" failing_client]
  show ?thesis
    by (simp add: ev5_def Let_def)
qed

section \<open>Lookup failures\<close>

lemma get_entity_miss:
  assumes "chat_entities s c = None" and "fst (lookup_entity cl c s) = Inl x"
  shows "fst (get_entity cl c s) = None \<and>
         chat_entities (snd (get_entity cl c s)) = chat_entities s \<and>
         chat_topics (snd (get_entity cl c s)) = chat_topics s \<and>
         no_forward_chats (snd (get_entity cl c s)) = no_forward_chats s \<and>
         resolved_message_links (snd (get_entity cl c s)) = resolved_message_links s"
proof -
  obtain a s1 where l: "lookup_entity cl c s = (a, s1)"
    by (rule prod.exhaust)
  with assms(2) have a: "a = Inl x" by simp
  have f: "chat_entities s1 = chat_entities s \<and> chat_topics s1 = chat_topics s \<and>
           no_forward_chats s1 = no_forward_chats s \<and>
           resolved_message_links s1 = resolved_message_links s"
    using l by (auto simp: lookup_entity_def request_def split: if_splits)
  have "get_entity cl c s = (None, s1)"
    using assms(1) l a by (simp add: get_entity_def)
  with f show ?thesis by simp
qed

lemma links_lookup_entity:
  "lookup_entity cl c s = (r, s') \<Longrightarrow> resolved_message_links s' = resolved_message_links s"
  by (auto simp: lookup_entity_def request_def split: if_splits)

lemma links_get_entity:
  "get_entity cl c s = (r, s') \<Longrightarrow> resolved_message_links s' = resolved_message_links s"
  by (auto simp: get_entity_def split: option.splits prod.splits sum.splits
           dest: links_lookup_entity)

lemma links_resolve_link_chat:
  "resolve_link_chat cl ld s = (r, s') \<Longrightarrow> resolved_message_links s' = resolved_message_links s"
  by (auto simp: resolve_link_chat_def Let_def split: option.splits prod.splits
           dest: links_get_entity)

lemma links_fetch_standard:
  "fetch_standard cl chat i s = (r, s') \<Longrightarrow> resolved_message_links s' = resolved_message_links s"
  by (auto simp: fetch_standard_def Let_def request_def split: sum.splits)

lemma links_fetch_in_topic:
  "fetch_in_topic cl chat i t m s = (r, s') \<Longrightarrow>
   resolved_message_links s' = resolved_message_links s"
  by (auto simp: fetch_in_topic_def Let_def request_def
           split: sum.splits option.splits if_splits)

lemma links_fetch_raw:
  "fetch_raw cl chat i m s = (r, s') \<Longrightarrow> resolved_message_links s' = resolved_message_links s"
  by (auto simp: fetch_raw_def Let_def request_def
           split: sum.splits option.splits list.splits if_splits)

lemma fetch_linked_message_miss:
  "fetch_linked_message cl ld s = (None, s') \<Longrightarrow>
   resolved_message_links s' = resolved_message_links s"
  by (auto simp: fetch_linked_message_def Let_def
           split: option.splits prod.splits sum.splits
           dest!: links_resolve_link_chat links_fetch_standard links_fetch_in_topic links_fetch_raw)

lemma get_entity_retry:
  assumes "chat_entities s c = None"
  shows "get_entity cl c s =
           (case lookup_entity cl c s of
              (Inr e, s1) \<Rightarrow> (Some e, s1\<lparr>chat_entities := (chat_entities s1)(c \<mapsto> e)\<rparr>)
            | (Inl y, s1) \<Rightarrow> (None, s1))"
  using assms by (simp add: get_entity_def split: prod.splits sum.splits)

lemma lookup_entity_frame:
  "now (snd (lookup_entity cl c s)) = Suc (now s) \<and>
   resolved_message_links (snd (lookup_entity cl c s)) = resolved_message_links s \<and>
   chat_entities (snd (lookup_entity cl c s)) = chat_entities s"
  by (simp add: lookup_entity_def now_def request_def)

lemma resolve_link_chat_key:
  assumes "(l_chat_id ld = Some lc \<and>
            k = (if \<not> startswith lc ''-100'' \<and> py_isdigit lc then ''-100'' @ lc else lc)) \<or>
           (l_chat_id ld = None \<and> l_username ld = Some k)"
  shows "resolve_link_chat cl ld s =
           (Inr (fst (get_entity cl (StrId k) s)), snd (get_entity cl (StrId k) s))"
  using assms by (auto simp: resolve_link_chat_def Let_def split: prod.splits)

lemma fetch_linked_message_unresolved:
  assumes key: "(l_chat_id ld = Some lc \<and>
            k = (if \<not> startswith lc ''-100'' \<and> py_isdigit lc then ''-100'' @ lc else lc)) \<or>
           (l_chat_id ld = None \<and> l_username ld = Some k)"
    and nc: "resolved_message_links s (cache_key_of ld) = None"
    and ne: "chat_entities s (StrId k) = None"
    and fl: "fst (lookup_entity cl (StrId k) s) = Inl x"
  shows "fetch_linked_message cl ld s = (None, snd (get_entity cl (StrId k) s))"
proof -
  have g: "fst (get_entity cl (StrId k) s) = None"
    using get_entity_miss [OF ne fl] by simp
  show ?thesis
    by (simp add: fetch_linked_message_def Let_def nc resolve_link_chat_key [OF key] g)
qed

lemma fetch_linked_message_retry:
  assumes key: "(l_chat_id ld = Some lc \<and>
            k = (if \<not> startswith lc ''-100'' \<and> py_isdigit lc then ''-100'' @ lc else lc)) \<or>
           (l_chat_id ld = None \<and> l_username ld = Some k)"
    and nc: "resolved_message_links s (cache_key_of ld) = None"
    and ne: "chat_entities s (StrId k) = None"
    and ok: "fst (lookup_entity cl (StrId k) s) = Inr chat"
    and ms: "cl_messages cl (Suc (now s)) chat (l_message_id ld) = Inr (Some m)"
    and tx: "truthy (m_message m)"
  shows "fst (fetch_linked_message cl ld s) = Some (m\<lparr>m_extracted_text := Some (extract_message_text m)\<rparr>)"
proof -
  obtain a s1 where l: "lookup_entity cl (StrId k) s = (a, s1)"
    by (rule prod.exhaust)
  with ok have a: "a = Inr chat" by simp
  from lookup_entity_frame [of cl "StrId k" s] l have n1: "now s1 = Suc (now s)"
    by simp
  let ?s2 = "s1\<lparr>chat_entities := (chat_entities s1)(StrId k \<mapsto> chat)\<rparr>"
  have g: "get_entity cl (StrId k) s = (Some chat, ?s2)"
    by (simp add: get_entity_retry [OF ne] l a)
  have n2: "now ?s2 = Suc (now s)"
    using n1 by (simp add: now_def)
  have f1: "fetch_standard cl chat (l_message_id ld) ?s2 =
              (Some m, request (CallGetMessages chat (l_message_id ld)) ?s2)"
    using ms n2 by (simp add: fetch_standard_def Let_def)
  have f2: "fetch_in_topic cl chat (l_message_id ld) (l_topic_id ld) (Some m) s' = (Some m, s')" for s'
    using tx by (simp add: fetch_in_topic_def)
  have f3: "fetch_raw cl chat (l_message_id ld) (Some m) s' = (Some m, s')" for s'
    using tx by (simp add: fetch_raw_def has_text_def)
  show ?thesis
    by (simp add: fetch_linked_message_def Let_def nc resolve_link_chat_key [OF key] g f1 f2 f3)
qed

lemma fetch_linked_message_no_message:
  assumes key: "(l_chat_id ld = Some lc \<and>
            k = (if \<not> startswith lc ''-100'' \<and> py_isdigit lc then ''-100'' @ lc else lc)) \<or>
           (l_chat_id ld = None \<and> l_username ld = Some k)"
    and nc: "resolved_message_links s (cache_key_of ld) = None"
    and ce: "chat_entities s (StrId k) = Some chat"
    and m1: "\<forall>t. case cl_messages cl t chat (l_message_id ld) of Inl y \<Rightarrow> True | Inr found \<Rightarrow> found = None"
    and m2: "\<forall>t tp. case cl_messages_in_topic cl t chat (l_message_id ld) tp of
                      Inl y \<Rightarrow> True | Inr found \<Rightarrow> found = None"
    and m3: "\<forall>t. case cl_raw_messages cl t chat (l_message_id ld) of Inl y \<Rightarrow> True | Inr raws \<Rightarrow> raws = []"
  shows "fst (fetch_linked_message cl ld s) = None"
proof -
  have g: "get_entity cl (StrId k) s = (Some chat, s)"
    using ce by (simp add: get_entity_def)
  have f1: "fst (fetch_standard cl chat (l_message_id ld) s') = None" for s'
    using m1 [rule_format, of "now s'"] by (simp add: fetch_standard_def Let_def split: sum.splits)
  have f2: "fst (fetch_in_topic cl chat (l_message_id ld) tp None s') = None" for s' tp
    using m2 [rule_format, of "now s'" "the tp"]
    by (simp add: fetch_in_topic_def Let_def split: sum.splits option.splits)
  have f3: "fst (fetch_raw cl chat (l_message_id ld) None s') = None" for s'
    using m3 [rule_format, of "now s'"]
    by (simp add: fetch_raw_def Let_def split: sum.splits list.splits)
  obtain a1 s1 where e1: "fetch_standard cl chat (l_message_id ld) s = (a1, s1)"
    by (rule prod.exhaust)
  with f1 [of s] have a1: "a1 = None" by simp
  obtain a2 s2 where e2: "fetch_in_topic cl chat (l_message_id ld) (l_topic_id ld) None s1 = (a2, s2)"
    by (rule prod.exhaust)
  with f2 [of "l_topic_id ld" s1] have a2: "a2 = None" by simp
  obtain a3 s3 where e3: "fetch_raw cl chat (l_message_id ld) None s2 = (a3, s3)"
    by (rule prod.exhaust)
  with f3 [of s2] have a3: "a3 = None" by simp
  show ?thesis
    using e1 e2 e3 a1 a2 a3
    by (simp add: fetch_linked_message_def Let_def nc resolve_link_chat_key [OF key] g)
qed

text \<open>
  Claim C7, as amended. A lookup failure is not cached. When the lookup of a chat that is not
  in the entity cache raises, \<open>get_entity\<close> returns \<^verbatim>\<open>None\<close> and leaves the entity cache and
  the no-forward set as they were, the chat title degrades to \<^verbatim>\<open>Chat {id}\<close>, and the next call
  evaluates the lookup again and returns the entity when the lookup then succeeds. The chat is
  marked permission-denied when \<open>can_forward_from_chat\<close> is called for it, and a chat so
  marked stays denied through any later run of operations, whatever the transport then
  answers. When the chat of a link cannot be resolved, or the chat is known and no fetch
  returns a message, \<open>fetch_linked_message\<close> returns \<^verbatim>\<open>None\<close> and leaves the link cache as it
  was, no block is added for the link and the remaining links are processed; after an
  unresolved chat the next call resolves and fetches again and returns the message when both
  then succeed. All of these return a value: the pipeline continues.
\<close>

theorem lookup_miss_not_cached:
  "(chat_entities s cid = None \<and> fst (lookup_entity cl cid s) = Inl x \<longrightarrow>
      fst (get_entity cl cid s) = None \<and>
      chat_entities (snd (get_entity cl cid s)) = chat_entities s \<and>
      no_forward_chats (snd (get_entity cl cid s)) = no_forward_chats s \<and>
      fst (get_chat_title cl cid s) = ''Chat '' @ py_str cid \<and>
      (fst (lookup_entity cl2 cid (snd (get_entity cl cid s))) = Inr e \<longrightarrow>
         fst (get_entity cl2 cid (snd (get_entity cl cid s))) = Some e) \<and>
      (cid \<notin> no_forward_chats s \<longrightarrow>
         fst (can_forward_from_chat cl cid s) = False \<and>
         cid \<in> no_forward_chats (snd (can_forward_from_chat cl cid s)))) \<and>
   (cid \<in> no_forward_chats s \<longrightarrow>
      can_forward_from_chat cl' cid (run rules xl ops s) = (False, run rules xl ops s)) \<and>
   (fst (fetch_linked_message cl ld s) = None \<longrightarrow>
      resolved_message_links (snd (fetch_linked_message cl ld s)) = resolved_message_links s \<and>
      no_forward_chats (snd (fetch_linked_message cl ld s)) = no_forward_chats s \<and>
      add_linked cl (ld # rest) acc s = add_linked cl rest acc (snd (fetch_linked_message cl ld s))) \<and>
   (((l_chat_id ld = Some lc \<and>
      k = (if \<not> startswith lc ''-100'' \<and> py_isdigit lc then ''-100'' @ lc else lc)) \<or>
     (l_chat_id ld = None \<and> l_username ld = Some k)) \<and>
    resolved_message_links s (cache_key_of ld) = None \<longrightarrow>
      (chat_entities s (StrId k) = None \<and> fst (lookup_entity cl (StrId k) s) = Inl x \<longrightarrow>
         fst (fetch_linked_message cl ld s) = None \<and>
         resolved_message_links (snd (fetch_linked_message cl ld s)) = resolved_message_links s \<and>
         add_linked cl [ld] acc s = (acc, snd (fetch_linked_message cl ld s)) \<and>
         (fst (lookup_entity cl2 (StrId k) (snd (fetch_linked_message cl ld s))) = Inr chat \<and>
          cl_messages cl2 (Suc (now (snd (fetch_linked_message cl ld s)))) chat (l_message_id ld)
            = Inr (Some m) \<and>
          truthy (m_message m) \<longrightarrow>
            fst (fetch_linked_message cl2 ld (snd (fetch_linked_message cl ld s))) =
              Some (m\<lparr>m_extracted_text := Some (extract_message_text m)\<rparr>))) \<and>
      (chat_entities s (StrId k) = Some chat \<and>
       (\<forall>t. case cl_messages cl t chat (l_message_id ld) of
               Inl y \<Rightarrow> True | Inr found \<Rightarrow> found = None) \<and>
       (\<forall>t tp. case cl_messages_in_topic cl t chat (l_message_id ld) tp of
                  Inl y \<Rightarrow> True | Inr found \<Rightarrow> found = None) \<and>
       (\<forall>t. case cl_raw_messages cl t chat (l_message_id ld) of
               Inl y \<Rightarrow> True | Inr raws \<Rightarrow> raws = []) \<longrightarrow>
         fst (fetch_linked_message cl ld s) = None \<and>
         resolved_message_links (snd (fetch_linked_message cl ld s)) = resolved_message_links s \<and>
         add_linked cl [ld] acc s = (acc, snd (fetch_linked_message cl ld s))))"
proof -
  have none_case: "resolved_message_links (snd (fetch_linked_message cl0 ld s0)) = resolved_message_links s0 \<and>
      no_forward_chats (snd (fetch_linked_message cl0 ld s0)) = no_forward_chats s0 \<and>
      add_linked cl0 (ld # rest0) acc0 s0 =
        add_linked cl0 rest0 acc0 (snd (fetch_linked_message cl0 ld s0))"
    if h: "fst (fetch_linked_message cl0 ld s0) = None" for cl0 s0 rest0 acc0
  proof -
    obtain r s' where f: "fetch_linked_message cl0 ld s0 = (r, s')"
      by (rule prod.exhaust)
    with h have f': "fetch_linked_message cl0 ld s0 = (None, s')" by simp
    have "resolved_message_links s' = resolved_message_links s0"
      using fetch_linked_message_miss [OF f'] .
    moreover have "no_forward_chats s' = no_forward_chats s0"
      using lookup_only_fetch_linked_message [OF f'] by (simp add: lookup_only_def)
    moreover have "add_linked cl0 (ld # rest0) acc0 s0 = add_linked cl0 rest0 acc0 s'"
      by (simp add: f')
    ultimately show ?thesis by (simp add: f')
  qed
  have part_a: "fst (get_entity cl cid s) = None \<and>
      chat_entities (snd (get_entity cl cid s)) = chat_entities s \<and>
      no_forward_chats (snd (get_entity cl cid s)) = no_forward_chats s \<and>
      fst (get_chat_title cl cid s) = ''Chat '' @ py_str cid \<and>
      (fst (lookup_entity cl2 cid (snd (get_entity cl cid s))) = Inr e \<longrightarrow>
         fst (get_entity cl2 cid (snd (get_entity cl cid s))) = Some e) \<and>
      (cid \<notin> no_forward_chats s \<longrightarrow>
         fst (can_forward_from_chat cl cid s) = False \<and>
         cid \<in> no_forward_chats (snd (can_forward_from_chat cl cid s)))"
    if h: "chat_entities s cid = None \<and> fst (lookup_entity cl cid s) = Inl x"
  proof -
    from h have m: "fst (get_entity cl cid s) = None \<and>
         chat_entities (snd (get_entity cl cid s)) = chat_entities s \<and>
         chat_topics (snd (get_entity cl cid s)) = chat_topics s \<and>
         no_forward_chats (snd (get_entity cl cid s)) = no_forward_chats s \<and>
         resolved_message_links (snd (get_entity cl cid s)) = resolved_message_links s"
      using get_entity_miss [of s cid cl x] by blast
    obtain r s1 where g: "get_entity cl cid s = (r, s1)"
      by (rule prod.exhaust)
    with m have g': "get_entity cl cid s = (None, s1)"
      and n1: "no_forward_chats s1 = no_forward_chats s"
      and c1: "chat_entities s1 = chat_entities s"
      by simp_all
    have t: "fst (get_chat_title cl cid s) = ''Chat '' @ py_str cid"
      by (simp add: get_chat_title_def chat_fallback_title_def g')
    have c1': "chat_entities s1 cid = None" using c1 h by simp
    have again: "fst (lookup_entity cl2 cid s1) = Inr e \<longrightarrow> fst (get_entity cl2 cid s1) = Some e"
      by (auto simp: get_entity_retry [OF c1'] split: prod.splits)
    have d: "cid \<notin> no_forward_chats s \<longrightarrow>
         fst (can_forward_from_chat cl cid s) = False \<and>
         cid \<in> no_forward_chats (snd (can_forward_from_chat cl cid s))"
      by (simp add: can_forward_from_chat_def g')
    from m t again d show ?thesis by (simp add: g')
  qed
  have part_b: "can_forward_from_chat cl' cid (run rules xl ops s) = (False, run rules xl ops s)"
    if "cid \<in> no_forward_chats s"
  proof -
    from that have "cid \<in> no_forward_chats (run rules xl ops s)"
      using run_mono [of s rules xl ops] by blast
    then show ?thesis by (rule can_forward_from_chat_denied)
  qed
  have part_d: "fst (fetch_linked_message cl ld s) = None \<and>
         resolved_message_links (snd (fetch_linked_message cl ld s)) = resolved_message_links s \<and>
         add_linked cl [ld] acc s = (acc, snd (fetch_linked_message cl ld s)) \<and>
         (fst (lookup_entity cl2 (StrId k) (snd (fetch_linked_message cl ld s))) = Inr chat \<and>
          cl_messages cl2 (Suc (now (snd (fetch_linked_message cl ld s)))) chat (l_message_id ld)
            = Inr (Some m) \<and>
          truthy (m_message m) \<longrightarrow>
            fst (fetch_linked_message cl2 ld (snd (fetch_linked_message cl ld s))) =
              Some (m\<lparr>m_extracted_text := Some (extract_message_text m)\<rparr>))"
    if key: "(l_chat_id ld = Some lc \<and>
      k = (if \<not> startswith lc ''-100'' \<and> py_isdigit lc then ''-100'' @ lc else lc)) \<or>
     (l_chat_id ld = None \<and> l_username ld = Some k)"
      and nc: "resolved_message_links s (cache_key_of ld) = None"
      and h: "chat_entities s (StrId k) = None \<and> fst (lookup_entity cl (StrId k) s) = Inl x"
  proof -
    from h have ne: "chat_entities s (StrId k) = None" and fl: "fst (lookup_entity cl (StrId k) s) = Inl x"
      by simp_all
    let ?s1 = "snd (get_entity cl (StrId k) s)"
    have f: "fetch_linked_message cl ld s = (None, ?s1)"
      using key nc ne fl by (rule fetch_linked_message_unresolved)
    have m: "chat_entities ?s1 = chat_entities s \<and> resolved_message_links ?s1 = resolved_message_links s"
      using get_entity_miss [OF ne fl] by simp
    then have nc1: "resolved_message_links ?s1 (cache_key_of ld) = None"
      and ne1: "chat_entities ?s1 (StrId k) = None"
      using nc ne by simp_all
    have r: "fst (lookup_entity cl2 (StrId k) ?s1) = Inr chat \<and>
          cl_messages cl2 (Suc (now ?s1)) chat (l_message_id ld) = Inr (Some m) \<and>
          truthy (m_message m) \<longrightarrow>
            fst (fetch_linked_message cl2 ld ?s1) =
              Some (m\<lparr>m_extracted_text := Some (extract_message_text m)\<rparr>)"
      using fetch_linked_message_retry [OF key nc1 ne1] by blast
    from m r show ?thesis by (simp add: f)
  qed
  have part_e: "fst (fetch_linked_message cl ld s) = None \<and>
         resolved_message_links (snd (fetch_linked_message cl ld s)) = resolved_message_links s \<and>
         add_linked cl [ld] acc s = (acc, snd (fetch_linked_message cl ld s))"
    if key: "(l_chat_id ld = Some lc \<and>
      k = (if \<not> startswith lc ''-100'' \<and> py_isdigit lc then ''-100'' @ lc else lc)) \<or>
     (l_chat_id ld = None \<and> l_username ld = Some k)"
      and nc: "resolved_message_links s (cache_key_of ld) = None"
      and h: "chat_entities s (StrId k) = Some chat \<and>
       (\<forall>t. case cl_messages cl t chat (l_message_id ld) of
               Inl y \<Rightarrow> True | Inr found \<Rightarrow> found = None) \<and>
       (\<forall>t tp. case cl_messages_in_topic cl t chat (l_message_id ld) tp of
                  Inl y \<Rightarrow> True | Inr found \<Rightarrow> found = None) \<and>
       (\<forall>t. case cl_raw_messages cl t chat (l_message_id ld) of
               Inl y \<Rightarrow> True | Inr raws \<Rightarrow> raws = [])"
  proof -
    have n: "fst (fetch_linked_message cl ld s) = None"
      using fetch_linked_message_no_message [OF key nc] h by blast
    with none_case [of cl s "[]" acc] show ?thesis
      by (cases "fetch_linked_message cl ld s") simp
  qed
  show ?thesis
    using part_a part_b none_case [of cl s rest acc] part_d part_e by blast
qed

text \<open>
  Claim C7 as stated fails: after a failed entity resolution nothing is recorded for the chat
  and the chat is not marked permission-denied, so that the next resolution evaluates the
  lookup again and succeeds; and a failed linked-message fetch stores nothing under its
  cache key.
\<close>

theorem lookup_miss_counterexample:
  "fst (get_entity failing_client (IntId 5) initial_state) = None \<and>
   chat_entities (snd (get_entity failing_client (IntId 5) initial_state)) (IntId 5) = None \<and>
   IntId 5 \<notin> no_forward_chats (snd (get_entity failing_client (IntId 5) initial_state)) \<and>
   fst (get_entity plain_client (IntId 5) (snd (get_entity failing_client (IntId 5) initial_state)))
     = Some forum_entity \<and>
   fst (fetch_linked_message failing_client link5 initial_state) = None \<and>
   resolved_message_links (snd (fetch_linked_message failing_client link5 initial_state))
     (cache_key_of link5) = None"
  by (simp add: get_entity_def lookup_entity_def failing_client_def plain_client_def
        initial_state_def now_def request_def py_str_def str_int_def str_nat.simps digit_char_def
        startswith_def fetch_linked_message_def resolve_link_chat_def link5_def py_isdigit_def
        cache_key_of_def Let_def)

lemma lookup_entity_plain:
  "fst (lookup_entity plain_client c s) = Inr forum_entity"
  "fst (lookup_entity working_client c s) = Inr forum_entity"
  "fst (lookup_entity failing_client c s) = Inl OtherError"
  by (simp_all add: lookup_entity_def plain_client_def working_client_def failing_client_def)

theorem lookup_miss_not_cached_witness:
  "fst (get_entity failing_client (IntId 5) initial_state) = None \<and>
   fst (get_entity plain_client (IntId 5) (snd (get_entity failing_client (IntId 5) initial_state)))
     = Some forum_entity \<and>
   fst (get_chat_title failing_client (IntId 5) initial_state) = ''Chat 5'' \<and>
   IntId 5 \<in> no_forward_chats (snd (can_forward_from_chat failing_client (IntId 5) initial_state)) \<and>
   fst (can_forward_from_chat plain_client (IntId 5)
          (snd (can_forward_from_chat failing_client (IntId 5) initial_state))) = False \<and>
   fst (fetch_linked_message failing_client link5 initial_state) = None \<and>
   resolved_message_links (snd (fetch_linked_message failing_client link5 initial_state)) = Map.empty \<and>
   fst (add_linked failing_client [link5] [] initial_state) = [] \<and>
   fst (fetch_linked_message working_client link5
          (snd (fetch_linked_message failing_client link5 initial_state))) =
     Some (amy_msg\<lparr>m_extracted_text := Some ''hi''\<rparr>) \<and>
   fst (fetch_linked_message failing_client link5 cached5_state) = None \<and>
   resolved_message_links (snd (fetch_linked_message failing_client link5 cached5_state)) = Map.empty"
proof -
  let ?s1 = "snd (can_forward_from_chat failing_client (IntId 5) initial_state)"
  let ?f1 = "snd (fetch_linked_message failing_client link5 initial_state)"
  have h: "chat_entities initial_state (IntId 5) = None \<and>
           fst (lookup_entity failing_client (IntId 5) initial_state) = Inl OtherError"
    by (simp add: initial_state_def lookup_entity_plain)
  have n: "IntId 5 \<notin> no_forward_chats initial_state"
    by (simp add: initial_state_def)
  have a: "fst (get_entity failing_client (IntId 5) initial_state) = None \<and>
      fst (get_entity plain_client (IntId 5) (snd (get_entity failing_client (IntId 5) initial_state)))
        = Some forum_entity \<and>
      fst (get_chat_title failing_client (IntId 5) initial_state) = ''Chat 5'' \<and>
      IntId 5 \<in> no_forward_chats ?s1"
    using lookup_miss_not_cached
      [where s = initial_state and cid = "IntId 5" and cl = failing_client and x = OtherError
         and ?cl2.0 = plain_client and e = forum_entity] h n
    by (simp add: lookup_entity_plain py_str_def str_int_def str_nat.simps digit_char_def)
  then have "IntId 5 \<in> no_forward_chats ?s1" by simp
  then have b: "fst (can_forward_from_chat plain_client (IntId 5) ?s1) = False"
    using lookup_miss_not_cached
      [where s = ?s1 and cid = "IntId 5" and cl' = plain_client and ops = "[]"]
    by simp
  have key: "(l_chat_id link5 = Some ''5'' \<and>
      ''-1005'' = (if \<not> startswith ''5'' ''-100'' \<and> py_isdigit ''5'' then ''-100'' @ ''5'' else ''5'')) \<or>
     (l_chat_id link5 = None \<and> l_username link5 = Some ''-1005'')"
    by (simp add: link5_def startswith_def py_isdigit_def)
  have nc: "resolved_message_links initial_state (cache_key_of link5) = None"
    by (simp add: initial_state_def)
  have hd: "chat_entities initial_state (StrId ''-1005'') = None \<and>
            fst (lookup_entity failing_client (StrId ''-1005'') initial_state) = Inl OtherError"
    by (simp add: initial_state_def lookup_entity_plain)
  have c0: "fst (fetch_linked_message failing_client link5 initial_state) = None \<and>
         resolved_message_links ?f1 = resolved_message_links initial_state \<and>
         add_linked failing_client [link5] [] initial_state = ([], ?f1) \<and>
         (fst (lookup_entity working_client (StrId ''-1005'') ?f1) = Inr forum_entity \<and>
          cl_messages working_client (Suc (now ?f1)) forum_entity (l_message_id link5)
            = Inr (Some amy_msg) \<and>
          truthy (m_message amy_msg) \<longrightarrow>
            fst (fetch_linked_message working_client link5 ?f1) =
              Some (amy_msg\<lparr>m_extracted_text := Some (extract_message_text amy_msg)\<rparr>))"
    using lookup_miss_not_cached
      [where s = initial_state and cl = failing_client and x = OtherError and ld = link5
         and lc = "''5''" and k = "''-1005''" and acc = "[]" and ?cl2.0 = working_client
         and chat = forum_entity and m = amy_msg] key nc hd
    by blast
  have w: "cl_messages working_client (Suc (now ?f1)) forum_entity (l_message_id link5)
            = Inr (Some amy_msg) \<and> truthy (m_message amy_msg) \<and>
           extract_message_text amy_msg = ''hi''"
    by (simp add: working_client_def amy_msg_def truthy_def extract_message_text_def str_of_def)
  have c: "fst (fetch_linked_message failing_client link5 initial_state) = None \<and>
      resolved_message_links ?f1 = Map.empty \<and>
      fst (add_linked failing_client [link5] [] initial_state) = [] \<and>
      fst (fetch_linked_message working_client link5 ?f1) =
        Some (amy_msg\<lparr>m_extracted_text := Some ''hi''\<rparr>)"
    using c0 w by (simp add: lookup_entity_plain initial_state_def)
  have nc5: "resolved_message_links cached5_state (cache_key_of link5) = None"
    by (simp add: cached5_state_def initial_state_def)
  have he: "chat_entities cached5_state (StrId ''-1005'') = Some forum_entity \<and>
       (\<forall>t. case cl_messages failing_client t forum_entity (l_message_id link5) of
               Inl y \<Rightarrow> True | Inr found \<Rightarrow> found = None) \<and>
       (\<forall>t tp. case cl_messages_in_topic failing_client t forum_entity (l_message_id link5) tp of
                  Inl y \<Rightarrow> True | Inr found \<Rightarrow> found = None) \<and>
       (\<forall>t. case cl_raw_messages failing_client t forum_entity (l_message_id link5) of
               Inl y \<Rightarrow> True | Inr raws \<Rightarrow> raws = [])"
    by (simp add: cached5_state_def initial_state_def failing_client_def)
  have d0: "fst (fetch_linked_message failing_client link5 cached5_state) = None \<and>
         resolved_message_links (snd (fetch_linked_message failing_client link5 cached5_state)) =
           resolved_message_links cached5_state"
    using lookup_miss_not_cached
      [where s = cached5_state and cl = failing_client and ld = link5
         and lc = "''5''" and k = "''-1005''" and chat = forum_entity] key nc5 he
    by blast
  then have d: "fst (fetch_linked_message failing_client link5 cached5_state) = None \<and>
      resolved_message_links (snd (fetch_linked_message failing_client link5 cached5_state)) = Map.empty"
    by (simp add: cached5_state_def initial_state_def)
  from a b c d show ?thesis by simp
qed

end
